theory Spec2Isabelle
  imports Complex_Main "HOL-Library.AList" "HOL-Library.Product_Lexorder" "HOL-Library.Multiset" "HOL-Library.Char_ord" "HOL-Library.List_Lexorder"
begin

section \<open>Data model\<close>

text \<open>
  The program is a pandas pipeline. Floating-point columns are modelled as exact reals, with
  NaN (an undefined cell) as \<open>None\<close>; every comparison with NaN is false, as in numpy.
  A DataFrame is a list of rows in row order; a dict is an association list in insertion
  order. Exceptions are values of \<open>py_error\<close>.
\<close>

datatype py_error = KeyError | TypeError | AttributeError | IndexError | ValueError

text \<open>A timestamp is (year, month, day); the lexicographic order is the chronological one.\<close>

type_synonym date = "nat \<times> nat \<times> nat"

text \<open>A month label: \<open>strftime("%y-%m")\<close> is (year mod 100, month), \<open>"%Y-%m"\<close> is (year, month).
  Both formats are zero-padded, so the string order is the lexicographic order of the pair.\<close>

type_synonym month_label = "nat \<times> nat"

definition strftime_ym :: "date \<Rightarrow> month_label" where
  "strftime_ym d = (case d of (y, m, _) \<Rightarrow> (y mod 100, m))"

definition strftime_Ym :: "date \<Rightarrow> month_label" where
  "strftime_Ym d = (case d of (y, m, _) \<Rightarrow> (y, m))"

text \<open>\<open>str.lower\<close> on ASCII ticker symbols.\<close>

definition lower_char :: "char \<Rightarrow> char" where
  "lower_char c = (let n = (of_char c :: nat) in if 65 \<le> n \<and> n \<le> 90 then char_of (n + 32) else c)"

definition lower :: "string \<Rightarrow> string" where
  "lower s = map lower_char s"

text \<open>A row of the frame the price source returns; any cell may be NaN.\<close>

record raw_bar =
  rb_Date :: date
  rb_Open :: "real option"
  rb_High :: "real option"
  rb_Low :: "real option"
  rb_Close :: "real option"
  rb_Volume :: "real option"

text \<open>A row of a cleaned daily frame: after \<open>dropna\<close> no cell is NaN.\<close>

record bar =
  Date :: date
  Open :: real
  High :: real
  Low :: real
  Close :: real
  Volume :: real

section \<open>get_stocks\<close>

text \<open>\<open>df.High == df.Low\<close>: elementwise equality, false when either side is NaN.\<close>

definition py_eq :: "real option \<Rightarrow> real option \<Rightarrow> bool" where
  "py_eq a b = (case (a, b) of (Some x, Some y) \<Rightarrow> x = y | _ \<Rightarrow> False)"

text \<open>\<open>df.dropna()\<close>: rows with a NaN cell are removed.\<close>

fun dropna_bar :: "raw_bar \<Rightarrow> bar option" where
  "dropna_bar b =
     (case (rb_Open b, rb_High b, rb_Low b, rb_Close b, rb_Volume b) of
        (Some o', Some h, Some l, Some c, Some v) \<Rightarrow>
          Some \<lparr>Date = rb_Date b, Open = o', High = h, Low = l, Close = c, Volume = v\<rparr>
      | _ \<Rightarrow> None)"

definition clean :: "raw_bar list \<Rightarrow> bar list" where
  "clean data = List.map_filter dropna_bar (filter (\<lambda>b. \<not> py_eq (rb_High b) (rb_Low b)) data)"

text \<open>The loop over the downloaded symbols: \<open>if len(df): dfs[symbol.lower()] = df\<close>.\<close>

fun get_stocks_loop ::
  "(string \<times> raw_bar list) list \<Rightarrow> (string \<times> bar list) list \<Rightarrow> (string \<times> bar list) list" where
  "get_stocks_loop [] dfs = dfs"
| "get_stocks_loop ((symbol, data) # rest) dfs =
     (let df = clean data
      in get_stocks_loop rest (if df = [] then dfs else AList.update (lower symbol) df dfs))"

text \<open>The screener's \<open>get_stocks\<close>; the price source \<open>yf_download\<close> is a collaborator.\<close>

definition get_stocks_screener ::
  "(string list \<Rightarrow> (string \<times> raw_bar list) list) \<Rightarrow> string list \<Rightarrow> (string \<times> bar list) list" where
  "get_stocks_screener yf_download symbols = get_stocks_loop (yf_download symbols) []"

text \<open>The backtest's \<open>get_stocks\<close> ends with \<open>dfs.pop("googl")\<close>, a missing key being ignored.\<close>

definition get_stocks ::
  "(string list \<Rightarrow> (string \<times> raw_bar list) list) \<Rightarrow> string list \<Rightarrow> (string \<times> bar list) list" where
  "get_stocks yf_download symbols = AList.delete ''googl'' (get_stocks_loop (yf_download symbols) [])"



section \<open>Daily features: add_indicators and max_beta\<close>

record ind_row = bar +
  pct :: "real option"
  changes :: "real option"

record daily_row = ind_row +
  month :: month_label
  beta :: "real option"

text \<open>\<open>Close.pct_change()\<close>: NaN on the first row, then close over previous close minus one.
  Closes are prices, taken to be nonzero: after a zero close pandas yields an infinite or NaN
  change, which this model does not represent.\<close>

fun pct_change :: "real list \<Rightarrow> real option list" where
  "pct_change [] = []"
| "pct_change (x # xs) = None # map2 (\<lambda>p c. Some (c / p - 1)) (x # xs) xs"

definition np_sign :: "real \<Rightarrow> real" where
  "np_sign x = (if 0 < x then 1 else if x < 0 then - 1 else 0)"

text \<open>The backtest takes the sign of \<open>pct.round(2)\<close>. The rounding acts on the double that
  holds the change, and a change next to a half-way point rounds by the binary value of that
  double, which the exact reals of this model do not determine. The rounding is therefore a
  parameter \<open>round_2\<close>. The screener takes the sign of the change itself.\<close>

definition add_indicators :: "(real \<Rightarrow> real) \<Rightarrow> bar list \<Rightarrow> ind_row list" where
  "add_indicators round_2 data =
     map2 (\<lambda>b p. \<lparr>Date = Date b, Open = Open b, High = High b, Low = Low b, Close = Close b,
                   Volume = Volume b, pct = p, changes = map_option (\<lambda>v. np_sign (round_2 v)) p\<rparr>)
       data (pct_change (map Close data))"

definition add_indicators_screener :: "bar list \<Rightarrow> ind_row list" where
  "add_indicators_screener data =
     map2 (\<lambda>b p. \<lparr>Date = Date b, Open = Open b, High = High b, Low = Low b, Close = Close b,
                   Volume = Volume b, pct = p, changes = map_option np_sign p\<rparr>)
       data (pct_change (map Close data))"

text \<open>Rounding of the exact value to two decimals, half to even: an instance of \<open>round_2\<close>
  used to run the examples.\<close>

definition rint :: "real \<Rightarrow> int" where
  "rint y = (let f = \<lfloor>y\<rfloor>; r = y - of_int f
             in if r < 1 / 2 then f else if 1 / 2 < r then f + 1 else if even f then f else f + 1)"

definition round2 :: "real \<Rightarrow> real" where
  "round2 x = of_int (rint (x * 100)) / 100"

text \<open>\<open>max_beta\<close>: per month label, the mean of the (at most) five largest defined daily
  changes; a month with no defined change gets NaN through the left merge.\<close>

definition defined :: "'a option list \<Rightarrow> 'a list" where
  "defined xs = List.map_filter (\<lambda>x. x) xs"

definition top_five_avg :: "real option list \<Rightarrow> real option" where
  "top_five_avg ps =
     (let top = take 5 (rev (sort (defined ps)))
      in if top = [] then None else Some (sum_list top / real (length top)))"

definition max_beta :: "ind_row list \<Rightarrow> daily_row list" where
  "max_beta df =
     map (\<lambda>r. \<lparr>Date = Date r, Open = Open r, High = High r, Low = Low r, Close = Close r,
                Volume = Volume r, pct = pct r, changes = changes r,
                month = strftime_ym (Date r),
                beta = top_five_avg (map pct (filter (\<lambda>x. strftime_ym (Date x) = strftime_ym (Date r)) df))\<rparr>)
       df"

section \<open>resample_stocks_to_month\<close>

record monthly_row =
  m_month :: month_label
  m_Date :: date
  m_Open :: real
  m_Close :: real
  m_beta :: "real option"
  m_changes :: real

text \<open>The groupby aggregations: \<open>last\<close> is the last non-NaN cell of the group in row order,
  \<open>sum\<close> skips NaN. \<open>Date\<close>, \<open>Open\<close> and \<open>Close\<close> are never NaN, so their \<open>first\<close> and \<open>last\<close>
  are those of the first and last row of the group in row order.\<close>

definition agg_last :: "'a option list \<Rightarrow> 'a option" where
  "agg_last xs = fold (\<lambda>x acc. case x of None \<Rightarrow> acc | Some v \<Rightarrow> Some v) xs None"

definition agg_sum :: "real option list \<Rightarrow> real" where
  "agg_sum xs = sum_list (defined xs)"

definition agg_month :: "month_label \<Rightarrow> ('a daily_row_scheme) list \<Rightarrow> monthly_row list" where
  "agg_month lbl df =
     (case filter (\<lambda>r. strftime_ym (Date r) = lbl) df of
        [] \<Rightarrow> []
      | g # gs \<Rightarrow>
          [\<lparr>m_month = lbl, m_Date = Date (last (g # gs)), m_Open = Open g,
            m_Close = Close (last (g # gs)), m_beta = agg_last (map beta (g # gs)),
            m_changes = agg_sum (map changes (g # gs))\<rparr>])"

text \<open>One row per label in label order, then \<open>set_index("Date").sort_index()\<close>. The dates of
  distinct groups are distinct, so the sort has no ties to break.\<close>

definition resample_stocks_to_month :: "('a daily_row_scheme) list \<Rightarrow> monthly_row list" where
  "resample_stocks_to_month df =
     sort_key m_Date
       (concat (map (\<lambda>lbl. agg_month lbl df) (sort (remdups (map (\<lambda>r. strftime_ym (Date r)) df)))))"

section \<open>momentum\<close>

record momentum_row = monthly_row +
  m_roc :: "real option"
  changes_3 :: "real option"
  changes_6 :: "real option"
  changes_9 :: "real option"
  changes_12 :: "real option"

text \<open>\<open>Series.shift(-1)\<close>: every value moves one row up, the last row becomes NaN.\<close>

definition shift_m1 :: "'a option list \<Rightarrow> 'a option list" where
  "shift_m1 xs = (case xs of [] \<Rightarrow> [] | _ # t \<Rightarrow> t @ [None])"

text \<open>\<open>rolling(n).sum()\<close> on a column without NaN: NaN until n rows are in the window.\<close>

definition rolling_sum :: "nat \<Rightarrow> real list \<Rightarrow> real option list" where
  "rolling_sum n xs =
     map (\<lambda>i. if n \<le> i + 1 then Some (sum_list (take n (drop (i + 1 - n) xs))) else None)
       [0..<length xs]"

text \<open>Assigning a Series to a column aligns it on the index: a row the Series has no value
  for gets NaN. \<open>roc\<close> (module \<open>tools\<close>) is not part of the sources; it is a parameter, a
  function from the closes and the interval to a Series on the index of the closes, so that
  its i-th value belongs to the i-th row.\<close>

definition reindex :: "nat \<Rightarrow> 'a option list \<Rightarrow> 'a option list" where
  "reindex n col = map (\<lambda>i. if i < length col then col ! i else None) [0..<n]"

definition py_gt0 :: "real option \<Rightarrow> bool" where
  "py_gt0 x = (case x of Some v \<Rightarrow> 0 < v | None \<Rightarrow> False)"

text \<open>\<open>np.where((roc > 0) & (changes > 0), changes + roc / 1000, changes)\<close> on one row.\<close>

definition np_where :: "real option \<Rightarrow> real option \<Rightarrow> real option" where
  "np_where r c =
     (if py_gt0 r \<and> py_gt0 c
      then (case (r, c) of (Some x, Some y) \<Rightarrow> Some (y + x / 1000) | _ \<Rightarrow> None)
      else c)"

definition roc_column ::
  "(real list \<Rightarrow> nat \<Rightarrow> real option list) \<Rightarrow> bool \<Rightarrow> nat \<Rightarrow> ('a monthly_row_scheme) list \<Rightarrow> real option list" where
  "roc_column roc shifted interval df =
     (let r = roc (map m_Close df) interval
      in reindex (length df) (if shifted then shift_m1 r else r))"

definition changes_column ::
  "(real list \<Rightarrow> nat \<Rightarrow> real option list) \<Rightarrow> bool \<Rightarrow> nat \<Rightarrow> ('a monthly_row_scheme) list \<Rightarrow> real option list" where
  "changes_column roc shifted interval df =
     map2 np_where (roc_column roc shifted interval df)
       (shift_m1 (rolling_sum interval (map m_changes df)))"

text \<open>The loop over the intervals 3, 6, 9, 12: each pass overwrites \<open>roc\<close> and adds one
  \<open>changes_<interval>\<close> column. The backtest shifts \<open>roc\<close>, the screener does not.\<close>

definition momentum_with ::
  "(real list \<Rightarrow> nat \<Rightarrow> real option list) \<Rightarrow> bool \<Rightarrow> monthly_row list \<Rightarrow> momentum_row list" where
  "momentum_with roc shifted df =
     map (\<lambda>i. \<lparr>m_month = m_month (df ! i), m_Date = m_Date (df ! i), m_Open = m_Open (df ! i),
                m_Close = m_Close (df ! i), m_beta = m_beta (df ! i), m_changes = m_changes (df ! i),
                m_roc = roc_column roc shifted 12 df ! i,
                changes_3 = changes_column roc shifted 3 df ! i,
                changes_6 = changes_column roc shifted 6 df ! i,
                changes_9 = changes_column roc shifted 9 df ! i,
                changes_12 = changes_column roc shifted 12 df ! i\<rparr>)
       [0..<length df]"

definition momentum ::
  "(real list \<Rightarrow> nat \<Rightarrow> real option list) \<Rightarrow> monthly_row list \<Rightarrow> momentum_row list" where
  "momentum roc = momentum_with roc True"

definition momentum_screener ::
  "(real list \<Rightarrow> nat \<Rightarrow> real option list) \<Rightarrow> monthly_row list \<Rightarrow> momentum_row list" where
  "momentum_screener roc = momentum_with roc False"

text \<open>The column \<open>changes_<h>\<close> of a row.\<close>

definition changes_h :: "nat \<Rightarrow> 'a momentum_row_scheme \<Rightarrow> real option" where
  "changes_h h r =
     (if h = 3 then changes_3 r else if h = 6 then changes_6 r
      else if h = 9 then changes_9 r else changes_12 r)"

text \<open>Modelled from the spec: \<open>roc\<close> of module \<open>tools\<close>, which the sources import but do not
  contain. \<open>roc_h[m] = close[m]/close[m-h] - 1\<close>, undefined for the first h months.\<close>

definition roc_spec :: "real list \<Rightarrow> nat \<Rightarrow> real option list" where
  "roc_spec closes h =
     map (\<lambda>i. if h \<le> i then Some (closes ! i / closes ! (i - h) - 1) else None) [0..<length closes]"

text \<open>The spec's words for the score: the direction count of month m is the sum of the net
  directions of the h months that end one month after m; the aligned roc is the one of the
  month after m in the backtest and of m itself in the screener.\<close>

definition dircount_aligned :: "nat \<Rightarrow> ('a monthly_row_scheme) list \<Rightarrow> nat \<Rightarrow> real option" where
  "dircount_aligned h df i =
     (if i + 1 < length df \<and> h \<le> i + 2
      then Some (\<Sum>j\<leftarrow>[i + 2 - h..<i + 2]. m_changes (df ! j)) else None)"

definition roc_aligned ::
  "(real list \<Rightarrow> nat \<Rightarrow> real option list) \<Rightarrow> bool \<Rightarrow> nat \<Rightarrow> ('a monthly_row_scheme) list \<Rightarrow> nat \<Rightarrow> real option" where
  "roc_aligned roc shifted h df i =
     (let r = roc (map m_Close df) h; k = (if shifted then i + 1 else i)
      in if k < length r then r ! k else None)"

definition spec_score :: "real option \<Rightarrow> real option \<Rightarrow> real option" where
  "spec_score r c =
     (case c of
        None \<Rightarrow> None
      | Some y \<Rightarrow> (case r of None \<Rightarrow> Some y
                  | Some x \<Rightarrow> if 0 < x \<and> 0 < y then Some (y + x / 1000) else Some y))"


text \<open>A five-month frame used to run the scorer.\<close>

definition ex_df :: "monthly_row list" where
  "ex_df =
    [\<lparr>m_month = (20, 1), m_Date = (2020, 1, 31), m_Open = 10, m_Close = 10, m_beta = None, m_changes = 1\<rparr>,
     \<lparr>m_month = (20, 2), m_Date = (2020, 2, 28), m_Open = 10, m_Close = 11, m_beta = None, m_changes = 3\<rparr>,
     \<lparr>m_month = (20, 3), m_Date = (2020, 3, 31), m_Open = 11, m_Close = 12, m_beta = None, m_changes = 2\<rparr>,
     \<lparr>m_month = (20, 4), m_Date = (2020, 4, 30), m_Open = 12, m_Close = 13, m_beta = None, m_changes = 1\<rparr>,
     \<lparr>m_month = (20, 5), m_Date = (2020, 5, 29), m_Open = 13, m_Close = 9, m_beta = None, m_changes = - 4\<rparr>]"

section \<open>The membership table: class SP_500_stocks\<close>

text \<open>The attribute \<open>df\<close> is \<open>None\<close> when the snapshot file does not exist, else the
  snapshots in file order, each a date (an ISO date string, compared as a string) with its
  tickers.\<close>

type_synonym SP_500_stocks = "(date \<times> string list) list option"

definition get_symbols :: "SP_500_stocks \<Rightarrow> nat \<Rightarrow> nat \<Rightarrow> nat \<Rightarrow> py_error + string list option" where
  "get_symbols self year month' day =
     (case self of
        None \<Rightarrow> Inr None
      | Some df \<Rightarrow>
          (case filter (\<lambda>(d, tickers). d \<le> (year, month', day)) df of
             [] \<Rightarrow> Inl IndexError
           | s # ss \<Rightarrow> Inr (Some (snd (last (s # ss))))))"

definition all_symbols :: "SP_500_stocks \<Rightarrow> py_error + string list" where
  "all_symbols self =
     (case self of
        None \<Rightarrow> Inl AttributeError
      | Some df \<Rightarrow> Inr (sort (remdups (concat (map snd df)))))"

section \<open>prepare_stocks\<close>

record index_row =
  i_month :: month_label
  i_Date :: date
  i_Close :: "real option"
  i_sma :: "real option"

definition QUANTILE_LOW_MOMENTUM :: real where
  "QUANTILE_LOW_MOMENTUM = 15 / 100"

definition QUANTILE_HIGH_BETA :: real where
  "QUANTILE_HIGH_BETA = 85 / 100"

definition QUANTILE_HIGH_BETA_screener :: real where
  "QUANTILE_HIGH_BETA_screener = 9 / 10"

definition MAX_STOCKS :: nat where
  "MAX_STOCKS = 10"

subsection \<open>The universe restrictor (backtest only)\<close>

text \<open>\<open>df.loc[df.month == label, col] = np.nan\<close> for \<open>beta\<close> and the four score columns.\<close>

definition null_month :: "month_label \<Rightarrow> momentum_row list \<Rightarrow> momentum_row list" where
  "null_month lbl df =
     map (\<lambda>r. if m_month r = lbl
              then r\<lparr>m_beta := None, changes_3 := None, changes_6 := None,
                     changes_9 := None, changes_12 := None\<rparr>
              else r) df"

text \<open>The loop over the index dates. \<open>get_symbols\<close> may raise; iterating its \<open>None\<close> raises
  TypeError. The inner loop visits the symbols that are not members, each with its own frame.\<close>

fun restrict_universe ::
  "SP_500_stocks \<Rightarrow> date list \<Rightarrow> (string \<times> momentum_row list) list
     \<Rightarrow> py_error + (string \<times> momentum_row list) list" where
  "restrict_universe sp [] stocks = Inr stocks"
| "restrict_universe sp (index_date # rest) stocks =
     (case get_symbols sp (fst index_date) (fst (snd index_date)) 1 of
        Inl e \<Rightarrow> Inl e
      | Inr None \<Rightarrow> Inl TypeError
      | Inr (Some tickers) \<Rightarrow>
          (let monthly_stocks = map lower tickers
           in restrict_universe sp rest
                (map (\<lambda>(symbol, df). if symbol \<in> set monthly_stocks then (symbol, df)
                                     else (symbol, null_month (strftime_ym index_date) df))
                   stocks)))"

subsection \<open>The cross-sectional tables\<close>

text \<open>A row of \<open>changes[period]\<close> or \<open>beta\<close>: the index row and one cell per symbol, in the
  order of the dict. Symbols are lower-case tickers, taken to differ from the column names
  \<open>Date\<close>, \<open>Close\<close>, \<open>sma\<close> and \<open>month\<close>.\<close>

record table_row =
  t_month :: month_label
  t_Date :: date
  t_Close :: "real option"
  t_sma :: "real option"
  cols :: "(string \<times> real option) list"

text \<open>The left merge on the month label: the cell of the symbol's row with that label, NaN
  when the symbol has none (labels are unique in a resampled frame).\<close>

definition lookup_month ::
  "(momentum_row \<Rightarrow> real option) \<Rightarrow> month_label \<Rightarrow> momentum_row list \<Rightarrow> real option" where
  "lookup_month col lbl df = (case find (\<lambda>r. m_month r = lbl) df of None \<Rightarrow> None | Some r \<Rightarrow> col r)"

definition cells ::
  "(momentum_row \<Rightarrow> real option) \<Rightarrow> month_label \<Rightarrow> (string \<times> momentum_row list) list
     \<Rightarrow> (string \<times> real option) list" where
  "cells col lbl stocks = map (\<lambda>(symbol, df). (symbol, lookup_month col lbl df)) stocks"

definition merge_table ::
  "(momentum_row \<Rightarrow> real option) \<Rightarrow> index_row list \<Rightarrow> (string \<times> momentum_row list) list
     \<Rightarrow> table_row list" where
  "merge_table col index stocks =
     map (\<lambda>ix. \<lparr>t_month = i_month ix, t_Date = i_Date ix, t_Close = i_Close ix, t_sma = i_sma ix,
                 cols = cells col (i_month ix) stocks\<rparr>)
       index"

subsection \<open>The quantile filter\<close>

text \<open>\<open>Series.quantile(q)\<close>: ValueError for q outside [0, 1]; NaN cells are skipped; NaN
  when nothing is left; else linear interpolation at position q (n - 1) of the sorted values.\<close>

definition interpolate :: "real list \<Rightarrow> real \<Rightarrow> real" where
  "interpolate vs p =
     (let lo = nat \<lfloor>p\<rfloor>; frac = p - real lo
      in if lo + 1 < length vs then vs ! lo + frac * (vs ! (lo + 1) - vs ! lo) else vs ! lo)"

definition quantile :: "real \<Rightarrow> real option list \<Rightarrow> py_error + real option" where
  "quantile q row =
     (if q < 0 \<or> 1 < q then Inl ValueError
      else
        (let vs = sort (defined row); n = length vs
         in if n = 0 then Inr None else Inr (Some (interpolate vs (q * real (n - 1))))))"

definition py_lt :: "real option \<Rightarrow> real option \<Rightarrow> bool" where
  "py_lt a b = (case (a, b) of (Some x, Some y) \<Rightarrow> x < y | _ \<Rightarrow> False)"

definition py_gt :: "real option \<Rightarrow> real option \<Rightarrow> bool" where
  "py_gt a b = py_lt b a"

text \<open>\<open>columns[row < row.quantile(q)].tolist()\<close> and \<open>columns[row > row.quantile(q)].tolist()\<close>.\<close>

definition low_momentum :: "real \<Rightarrow> (string \<times> real option) list \<Rightarrow> py_error + string list" where
  "low_momentum q cs =
     (case quantile q (map snd cs) of
        Inl e \<Rightarrow> Inl e
      | Inr t \<Rightarrow> Inr (map fst (filter (\<lambda>(symbol, v). py_lt v t) cs)))"

definition high_beta :: "real \<Rightarrow> (string \<times> real option) list \<Rightarrow> py_error + string list" where
  "high_beta q cs =
     (case quantile q (map snd cs) of
        Inl e \<Rightarrow> Inl e
      | Inr t \<Rightarrow> Inr (map fst (filter (\<lambda>(symbol, v). py_gt v t) cs)))"

text \<open>\<open>neg_symbols\<close>: a dict from month label to the list of excluded symbols.\<close>

type_synonym neg_symbols = "(month_label \<times> string list) list"

definition neg_get :: "neg_symbols \<Rightarrow> month_label \<Rightarrow> string list" where
  "neg_get neg m = (case map_of neg m of None \<Rightarrow> [] | Some symbols \<Rightarrow> symbols)"

fun collect :: "('e + 'a) list \<Rightarrow> 'e + 'a list" where
  "collect [] = Inr []"
| "collect (x # xs) =
     (case x of Inl e \<Rightarrow> Inl e
      | Inr v \<Rightarrow> (case collect xs of Inl e \<Rightarrow> Inl e | Inr vs \<Rightarrow> Inr (v # vs)))"

text \<open>One pass over a table: \<open>neg_symbols.update({month: neg_symbols.get(month, []) + excluded
  for month in table.index})\<close>. The beta pass assigns key by key, which with unique labels is
  the same update.\<close>

definition neg_pass ::
  "((string \<times> real option) list \<Rightarrow> py_error + string list) \<Rightarrow> table_row list \<Rightarrow> neg_symbols
     \<Rightarrow> py_error + neg_symbols" where
  "neg_pass excluded tbl neg =
     (case collect (map (\<lambda>row. case excluded (cols row) of
                                 Inl e \<Rightarrow> Inl e
                               | Inr symbols \<Rightarrow> Inr (t_month row, neg_get neg (t_month row) @ symbols)) tbl) of
        Inl e \<Rightarrow> Inl e
      | Inr kvs \<Rightarrow> Inr (AList.updates (map fst kvs) (map snd kvs) neg))"

text \<open>\<open>changes[12].loc[month, symbol] = np.nan\<close> for every symbol of every month's list.\<close>

definition apply_neg :: "neg_symbols \<Rightarrow> table_row list \<Rightarrow> table_row list" where
  "apply_neg neg tbl =
     map (\<lambda>row. row\<lparr>cols := map (\<lambda>(symbol, v). if symbol \<in> set (neg_get neg (t_month row))
                                               then (symbol, None) else (symbol, v)) (cols row)\<rparr>)
       tbl"

text \<open>The second half of \<open>prepare_stocks\<close>, from the scored frames to the filtered
  \<open>changes[12]\<close> table; the two programs differ in the beta quantile only.\<close>

definition cross_section ::
  "real \<Rightarrow> index_row list \<Rightarrow> (string \<times> momentum_row list) list \<Rightarrow> py_error + table_row list" where
  "cross_section q_beta index stocks =
     (case neg_pass (low_momentum QUANTILE_LOW_MOMENTUM) (merge_table changes_6 index stocks) [] of
        Inl e \<Rightarrow> Inl e
      | Inr neg6 \<Rightarrow>
     (case neg_pass (low_momentum QUANTILE_LOW_MOMENTUM) (merge_table changes_9 index stocks) neg6 of
        Inl e \<Rightarrow> Inl e
      | Inr neg9 \<Rightarrow>
     (case neg_pass (high_beta q_beta) (merge_table m_beta index stocks) neg9 of
        Inl e \<Rightarrow> Inl e
      | Inr neg \<Rightarrow> Inr (apply_neg neg (merge_table changes_12 index stocks)))))"

text \<open>The backtest's \<open>prepare_stocks\<close>. The symbols come from the membership table.\<close>

definition prepare_stocks ::
  "(real list \<Rightarrow> nat \<Rightarrow> real option list) \<Rightarrow> (real \<Rightarrow> real) \<Rightarrow> SP_500_stocks
     \<Rightarrow> (string list \<Rightarrow> (string \<times> raw_bar list) list) \<Rightarrow> index_row list
     \<Rightarrow> py_error + table_row list" where
  "prepare_stocks roc round_2 sp yf_download index =
     (case all_symbols sp of
        Inl e \<Rightarrow> Inl e
      | Inr symbols \<Rightarrow>
          (let stocks = map (\<lambda>(symbol, df).
                   (symbol, momentum roc
                      (resample_stocks_to_month (max_beta (add_indicators round_2 df)))))
                 (get_stocks yf_download symbols)
           in case restrict_universe sp (map i_Date index) stocks of
                Inl e \<Rightarrow> Inl e
              | Inr stocks' \<Rightarrow> cross_section QUANTILE_HIGH_BETA index stocks'))"

text \<open>The screener's \<open>prepare_stocks\<close>; \<open>sp_500_list\<close> reads a web page and is a parameter.\<close>

definition prepare_stocks_screener ::
  "(real list \<Rightarrow> nat \<Rightarrow> real option list) \<Rightarrow> string list
     \<Rightarrow> (string list \<Rightarrow> (string \<times> raw_bar list) list) \<Rightarrow> index_row list
     \<Rightarrow> py_error + table_row list" where
  "prepare_stocks_screener roc sp_500_list yf_download index =
     cross_section QUANTILE_HIGH_BETA_screener index
       (map (\<lambda>(symbol, df).
               (symbol, momentum_screener roc
                  (resample_stocks_to_month (max_beta (add_indicators_screener df)))))
          (get_stocks_screener yf_download sp_500_list))"

text \<open>A cross-section of eight symbols for the quantile filter.\<close>

definition ex_cs :: "(string \<times> real option) list" where
  "ex_cs = [(''a'', Some 1), (''b'', Some 0), (''c'', Some 1), (''d'', None), (''e'', Some 1),
            (''f'', Some 1), (''g'', Some 3), (''h'', Some 1), (''i'', Some 2)]"

text \<open>The spec's words for the low-momentum rule, with the comparison the code makes: the
  symbol has a defined score strictly below the quantile of the defined scores of the row.\<close>

definition strictly_below :: "real \<Rightarrow> (string \<times> real option) list \<Rightarrow> string \<Rightarrow> bool" where
  "strictly_below q cs symbol =
     (case quantile q (map snd cs) of
        Inr (Some t) \<Rightarrow> list_ex (\<lambda>(s, v). s = symbol \<and> (case v of Some x \<Rightarrow> x < t | None \<Rightarrow> False)) cs
      | _ \<Rightarrow> False)"

text \<open>Three scored symbols over two index months.\<close>

definition ex_mrow :: "month_label \<Rightarrow> date \<Rightarrow> real option \<Rightarrow> real option \<Rightarrow> real option \<Rightarrow> real option \<Rightarrow> momentum_row" where
  "ex_mrow lbl d b c6 c9 c12 =
     \<lparr>m_month = lbl, m_Date = d, m_Open = 10, m_Close = 11, m_beta = b, m_changes = 1,
      m_roc = None, changes_3 = None, changes_6 = c6, changes_9 = c9, changes_12 = c12\<rparr>"

definition ex_stocks :: "(string \<times> momentum_row list) list" where
  "ex_stocks =
     [(''aaa'', [ex_mrow (21, 1) (2021, 1, 29) (Some (1 / 100)) (Some 3) (Some 4) (Some 5),
                ex_mrow (21, 2) (2021, 2, 26) (Some (1 / 100)) (Some 3) (Some 1) (Some 6)]),
      (''bbb'', [ex_mrow (21, 1) (2021, 1, 29) (Some (2 / 100)) (Some 1) (Some 4) (Some 7),
                ex_mrow (21, 2) (2021, 2, 26) (Some (2 / 100)) (Some 4) (Some 4) (Some 8)]),
      (''ccc'', [ex_mrow (21, 1) (2021, 1, 29) (Some (3 / 100)) (Some 3) (Some 4) (Some (- 2)),
                ex_mrow (21, 2) (2021, 2, 26) (Some (3 / 100)) (Some 5) (Some 4) (Some 9)])]"

definition ex_index :: "index_row list" where
  "ex_index =
     [\<lparr>i_month = (21, 1), i_Date = (2021, 1, 29), i_Close = Some 3700, i_sma = Some 3400\<rparr>,
      \<lparr>i_month = (21, 2), i_Date = (2021, 2, 26), i_Close = Some 3800, i_sma = Some 3500\<rparr>]"

section \<open>get_top_stocks and the selection loops\<close>

text \<open>A row of the final table after \<open>dropna()\<close>: the NaN cells are gone, \<open>Close\<close> and \<open>sma\<close>
  among them when they are NaN; \<open>month\<close> is a string and always stays.\<close>

record frame =
  f_Close :: "real option"
  f_sma :: "real option"
  f_cols :: "(string \<times> real) list"

definition dropna_row :: "table_row \<Rightarrow> frame" where
  "dropna_row row =
     \<lparr>f_Close = t_Close row, f_sma = t_sma row,
      f_cols = List.map_filter (\<lambda>(symbol, v). map_option (Pair symbol) v) (cols row)\<rparr>"

text \<open>\<open>DataFrame.tail(n)\<close>.\<close>

definition tail :: "nat \<Rightarrow> 'a list \<Rightarrow> 'a list" where
  "tail n xs = drop (length xs - n) xs"

text \<open>\<open>sort_values("beta")\<close> sorts ascending with pandas' default quicksort, which fixes no
  order among equal keys. It is a parameter \<open>srt\<close>, constrained to return its argument
  rearranged in ascending key order.\<close>

definition sort_values_ok :: "((string \<times> real) list \<Rightarrow> (string \<times> real) list) \<Rightarrow> bool" where
  "sort_values_ok srt = (\<forall>xs. mset (srt xs) = mset xs \<and> sorted (map snd (srt xs)))"

text \<open>\<open>df.drop(["month", "Close", "sma"])\<close> raises KeyError when a label is missing.\<close>

definition get_top_stocks ::
  "((string \<times> real) list \<Rightarrow> (string \<times> real) list) \<Rightarrow> frame \<Rightarrow> py_error + string list" where
  "get_top_stocks srt df =
     (if f_Close df = None \<or> f_sma df = None then Inl KeyError
      else Inr (map fst (tail MAX_STOCKS (srt (filter (\<lambda>(symbol, beta). 0 < beta) (f_cols df))))))"

subsection \<open>The backtest's selection loop\<close>

text \<open>\<open>sp_500_stocks.month.max()\<close>: the largest month label of the table.\<close>

definition month_max :: "table_row list \<Rightarrow> month_label option" where
  "month_max tbl = (case map t_month tbl of [] \<Rightarrow> None | l # ls \<Rightarrow> Some (fold max ls l))"

text \<open>One pass of the loop: the regime gate, the exclusion of the latest month, then the
  ranking. A month that fails the condition contributes no tickers.\<close>

definition select_month ::
  "((string \<times> real) list \<Rightarrow> (string \<times> real) list) \<Rightarrow> month_label option \<Rightarrow> table_row
     \<Rightarrow> py_error + string list" where
  "select_month srt mx row =
     (if py_gt (t_Close row) (t_sma row) \<and> Some (t_month row) \<noteq> mx
      then get_top_stocks srt (dropna_row row) else Inr [])"

text \<open>\<open>name + timedelta(days=10)\<close> on the proleptic Gregorian calendar.\<close>

definition is_leap :: "nat \<Rightarrow> bool" where
  "is_leap y = (y mod 4 = 0 \<and> (y mod 100 \<noteq> 0 \<or> y mod 400 = 0))"

definition days_in_month :: "nat \<Rightarrow> nat \<Rightarrow> nat" where
  "days_in_month y m =
     (if m = 2 then (if is_leap y then 29 else 28)
      else if m = 4 \<or> m = 6 \<or> m = 9 \<or> m = 11 then 30 else 31)"

fun next_day :: "date \<Rightarrow> date" where
  "next_day (y, m, d) =
     (if d < days_in_month y m then (y, m, d + 1)
      else if m < 12 then (y, m + 1, 1) else (y + 1, 1, 1))"

definition add_days :: "date \<Rightarrow> nat \<Rightarrow> date" where
  "add_days d n = (next_day ^^ n) d"

text \<open>The portfolio: one entry (execution month, symbol) per selected ticker.\<close>

fun build_portfolio ::
  "((string \<times> real) list \<Rightarrow> (string \<times> real) list) \<Rightarrow> month_label option \<Rightarrow> table_row list
     \<Rightarrow> py_error + (month_label \<times> string) list" where
  "build_portfolio srt mx [] = Inr []"
| "build_portfolio srt mx (row # rows) =
     (case select_month srt mx row of
        Inl e \<Rightarrow> Inl e
      | Inr top_stocks \<Rightarrow>
          (case build_portfolio srt mx rows of
             Inl e \<Rightarrow> Inl e
           | Inr rest \<Rightarrow>
               Inr (map (\<lambda>ticker. (strftime_Ym (add_days (t_Date row) 10), ticker)) top_stocks @ rest)))"

text \<open>\<open>sp_500_stocks["2016-12-01":]\<close> keeps the rows dated from that day on.\<close>

definition backtest_portfolio ::
  "((string \<times> real) list \<Rightarrow> (string \<times> real) list) \<Rightarrow> table_row list
     \<Rightarrow> py_error + (month_label \<times> string) list" where
  "backtest_portfolio srt tbl =
     (let sp_500_stocks = filter (\<lambda>row. (2016, 12, 1) \<le> t_Date row) tbl
      in build_portfolio srt (month_max sp_500_stocks) sp_500_stocks)"

text \<open>A table row with fourteen symbols, for the selector.\<close>

definition ex_row :: table_row where
  "ex_row =
     \<lparr>t_month = (21, 1), t_Date = (2021, 1, 29), t_Close = Some 3700, t_sma = Some 3400,
      cols = [(''s01'', Some 5), (''s02'', Some 12), (''s03'', None), (''s04'', Some (- 3)),
              (''s05'', Some 7), (''s06'', Some 1), (''s07'', Some 9), (''s08'', Some 2),
              (''s09'', Some 11), (''s10'', Some 4), (''s11'', Some 0), (''s12'', Some 8),
              (''s13'', Some 6), (''s14'', Some 3), (''s15'', Some 10)]\<rparr>"

text \<open>The spec's words for the universe restrictor: \<open>members\<close> of an index date, the rows it
  concerns, and what it does to such a row.\<close>

definition members :: "SP_500_stocks \<Rightarrow> date \<Rightarrow> string list" where
  "members sp index_date =
     (case get_symbols sp (fst index_date) (fst (snd index_date)) 1 of
        Inr (Some tickers) \<Rightarrow> map lower tickers
      | _ \<Rightarrow> [])"

definition not_member_in :: "SP_500_stocks \<Rightarrow> date list \<Rightarrow> string \<Rightarrow> month_label \<Rightarrow> bool" where
  "not_member_in sp dates symbol lbl =
     (\<exists>d \<in> set dates. strftime_ym d = lbl \<and> symbol \<notin> set (members sp d))"

definition undefined_scores :: "momentum_row \<Rightarrow> momentum_row" where
  "undefined_scores r =
     \<lparr>m_month = m_month r, m_Date = m_Date r, m_Open = m_Open r, m_Close = m_Close r,
      m_beta = None, m_changes = m_changes r, m_roc = m_roc r,
      changes_3 = None, changes_6 = None, changes_9 = None, changes_12 = None\<rparr>"

text \<open>A membership table with two snapshots; \<open>BBB\<close> leaves the index in February 2021.\<close>

definition ex_sp :: SP_500_stocks where
  "ex_sp = Some [((2020, 12, 1), [''AAA'', ''BBB'', ''CCC'']), ((2021, 2, 1), [''AAA'', ''CCC''])]"

text \<open>A price source that returns usable bars for \<open>GOOGL\<close> and for \<open>AAA\<close>, and a membership
  table that lists both.\<close>

definition ex_bar :: "date \<Rightarrow> real \<Rightarrow> real \<Rightarrow> raw_bar" where
  "ex_bar d o' c =
     \<lparr>rb_Date = d, rb_Open = Some o', rb_High = Some (c + 2), rb_Low = Some (o' - 1),
      rb_Close = Some c, rb_Volume = Some 1000\<rparr>"

definition ex_yf :: "string list \<Rightarrow> (string \<times> raw_bar list) list" where
  "ex_yf symbols =
     [(''GOOGL'', [ex_bar (2021, 1, 4) 1700 1720, ex_bar (2021, 1, 5) 1720 1740]),
      (''AAA'', [ex_bar (2021, 1, 4) 10 11, ex_bar (2021, 1, 5) 11 12])]"

definition ex_sp_googl :: SP_500_stocks where
  "ex_sp_googl = Some [((2020, 12, 1), [''AAA'', ''GOOGL''])]"

text \<open>Two trading days of January 2021, the later one first.\<close>

definition ex_day :: "date \<Rightarrow> real \<Rightarrow> real \<Rightarrow> daily_row" where
  "ex_day d o' c =
     \<lparr>Date = d, Open = o', High = c + 2, Low = o' - 1, Close = c, Volume = 1000,
      pct = None, changes = Some 1, month = strftime_ym d, beta = Some (1 / 100)\<rparr>"

definition ex_days :: "daily_row list" where
  "ex_days = [ex_day (2021, 1, 15) 20 21, ex_day (2021, 1, 4) 10 11]"

section \<open>The backtest's simulation of the portfolio\<close>

text \<open>A row of the \<open>portfolio\<close> frame: \<open>month\<close> (formatted \<open>%Y-%m\<close>) and \<open>symbol\<close> from the
  selection loop; \<open>start\<close>, \<open>end\<close>, \<open>buy\<close> and \<open>sell\<close> are written by the simulation loop and are
  NaN (NaT) in a row the loop did not fill. The loop also writes a percentage to \<open>profit\<close>,
  which only the trade journal reads before the column is overwritten; the journal, a
  markdown text, is not modelled.\<close>

record position =
  p_month :: month_label
  p_symbol :: string
  p_start :: "date option"
  p_end :: "date option"
  p_buy :: "real option"
  p_sell :: "real option"

text \<open>A row of \<open>df_month\<close>: per \<open>%Y-%m\<close> label the first and last date, the first open and the
  last close of the group, in the row order of the frame.\<close>

record month_bar =
  b_End :: date
  b_Start :: date
  b_Open :: real
  b_Close :: real

text \<open>\<open>df_month.loc[position.month]\<close>: the row of that label, \<open>None\<close> for the \<open>KeyError\<close> of a
  label the frame does not have.\<close>

definition df_month :: "bar list \<Rightarrow> month_label \<Rightarrow> month_bar option" where
  "df_month df m =
     (case filter (\<lambda>r. strftime_Ym (Date r) = m) df of
        [] \<Rightarrow> None
      | g # gs \<Rightarrow>
          Some \<lparr>b_End = Date (last (g # gs)), b_Start = Date g, b_Open = Open g,
                b_Close = Close (last (g # gs))\<rparr>)"

text \<open>The body of the loop over the positions. \<open>stocks[position.symbol]\<close> is outside the
  \<open>try\<close>, so a symbol without a frame raises \<open>KeyError\<close>. The five assignments are inside
  \<open>try: ... except: pass\<close>, and the first of them already reads \<open>df_month.loc[month]\<close>: on a
  label that is missing nothing is assigned and the row keeps its NaN cells.\<close>

definition fill_position :: "bar list \<Rightarrow> month_label \<times> string \<Rightarrow> position" where
  "fill_position df p =
     (case df_month df (fst p) of
        None \<Rightarrow>
          \<lparr>p_month = fst p, p_symbol = snd p, p_start = None, p_end = None,
           p_buy = None, p_sell = None\<rparr>
      | Some b \<Rightarrow>
          \<lparr>p_month = fst p, p_symbol = snd p, p_start = Some (b_Start b), p_end = Some (b_End b),
           p_buy = Some (b_Open b), p_sell = Some (b_Close b)\<rparr>)"

fun simulate_positions ::
  "(string \<times> bar list) list \<Rightarrow> (month_label \<times> string) list \<Rightarrow> py_error + position list" where
  "simulate_positions stocks [] = Inr []"
| "simulate_positions stocks (p # rest) =
     (case map_of stocks (snd p) of
        None \<Rightarrow> Inl KeyError
      | Some df \<Rightarrow>
          (case simulate_positions stocks rest of
             Inl e \<Rightarrow> Inl e
           | Inr ps \<Rightarrow> Inr (fill_position df p # ps)))"

text \<open>\<open>10_000 / portfolio["buy"]\<close>: NaN for a NaN price and infinite for a price of zero; both
  are \<open>None\<close> here, a value that \<open>astype(int)\<close> refuses.\<close>

definition per_10000 :: "real option \<Rightarrow> real option" where
  "per_10000 buy = (case buy of None \<Rightarrow> None | Some b \<Rightarrow> if b = 0 then None else Some (10000 / b))"

text \<open>\<open>Series.astype(int)\<close>: a \<open>ValueError\<close> (cannot convert non-finite values to integer)
  if any cell is NaN or infinite, else every cell truncated towards zero.\<close>

definition trunc :: "real \<Rightarrow> int" where
  "trunc x = (if 0 \<le> x then \<lfloor>x\<rfloor> else \<lceil>x\<rceil>)"

definition astype_int :: "real option list \<Rightarrow> py_error + int list" where
  "astype_int xs =
     (if list_all (\<lambda>x. x \<noteq> None) xs then Inr (map (\<lambda>x. trunc (the x)) xs) else Inl ValueError)"

text \<open>\<open>(10_000 / portfolio["buy"]).astype(int)\<close>. The column \<open>buy\<close> exists once the loop has
  filled a row; reading it before raises \<open>KeyError\<close>.\<close>

definition shares :: "position list \<Rightarrow> py_error + int list" where
  "shares portfolio =
     (if list_ex (\<lambda>p. p_buy p \<noteq> None) portfolio
      then astype_int (map (\<lambda>p. per_10000 (p_buy p)) portfolio)
      else Inl KeyError)"

text \<open>The two sizing statements. The first, for \<open>invest\<close>, is inside
  \<open>try: ... except: print(portfolio["buy"])\<close>; the second, for \<open>profit\<close>, repeats the same
  conversion outside any \<open>try\<close>. So an error of the conversion leaves the program either way:
  a \<open>KeyError\<close> is raised again by the handler, which reads the same column, and a
  \<open>ValueError\<close> is raised again by the second statement.\<close>

record sized = position +
  p_invest :: real
  p_profit :: real

definition size_position :: "position \<Rightarrow> int \<Rightarrow> sized" where
  "size_position p n =
     position.extend p
       \<lparr>p_invest = of_int n * the (p_buy p), p_profit = of_int n * the (p_sell p)\<rparr>"

definition size_positions :: "position list \<Rightarrow> py_error + sized list" where
  "size_positions portfolio =
     (case shares portfolio of
        Inl e \<Rightarrow> Inl e
      | Inr ns \<Rightarrow> Inr (map (\<lambda>(p, n). size_position p n) (zip portfolio ns)))"

text \<open>The monthly aggregation: per month label, in label order, the number of positions and
  the sums of \<open>invest\<close> and \<open>profit\<close>; \<open>dropna\<close> removes nothing, the sums being defined. The
  rounding to one decimal, \<open>round_1\<close>, is a parameter; \<open>earning\<close> is NaN or infinite, here
  \<open>None\<close>, for a month with nothing invested.\<close>

record monthly_result =
  r_month :: month_label
  r_Positions :: nat
  r_Invest :: real
  r_Profit :: real
  r_earning :: "real option"

definition monthly_of :: "(real \<Rightarrow> real) \<Rightarrow> sized list \<Rightarrow> month_label \<Rightarrow> monthly_result" where
  "monthly_of round_1 portfolio m =
     (let g = filter (\<lambda>p. p_month p = m) portfolio;
          inv = sum_list (map p_invest g);
          pro = sum_list (map p_profit g)
      in \<lparr>r_month = m, r_Positions = length g, r_Invest = inv, r_Profit = pro,
          r_earning = (if inv = 0 then None else Some (round_1 ((pro - inv) / inv * 100)))\<rparr>)"

definition monthly :: "(real \<Rightarrow> real) \<Rightarrow> sized list \<Rightarrow> monthly_result list" where
  "monthly round_1 portfolio =
     map (monthly_of round_1 portfolio) (sort (remdups (map p_month portfolio)))"

text \<open>The simulation as a whole, from the selected portfolio to the sized positions and the
  monthly table. \<open>pd.DataFrame([])\<close> has no column \<open>symbol\<close>, so an empty portfolio raises
  \<open>AttributeError\<close>. The prices are loaded again, for the distinct symbols in order of first
  appearance.\<close>

definition simulate ::
  "(real \<Rightarrow> real) \<Rightarrow> (string list \<Rightarrow> (string \<times> raw_bar list) list)
     \<Rightarrow> (month_label \<times> string) list \<Rightarrow> py_error + sized list \<times> monthly_result list" where
  "simulate round_1 yf_download portfolio =
     (if portfolio = [] then Inl AttributeError
      else
        (let stocks = get_stocks yf_download (remdups (map snd portfolio))
         in case simulate_positions stocks portfolio of
              Inl e \<Rightarrow> Inl e
            | Inr ps \<Rightarrow>
                (case size_positions ps of
                   Inl e \<Rightarrow> Inl e
                 | Inr sz \<Rightarrow> Inr (sz, monthly round_1 sz))))"

text \<open>Rounding of the exact value to one decimal, half to even: an instance of \<open>round_1\<close>.\<close>

definition round1 :: "real \<Rightarrow> real" where
  "round1 x = of_int (rint (x * 10)) / 10"

text \<open>A portfolio of two positions in one symbol: the price source has bars of January 2021
  for it and none of February 2021.\<close>

definition ex_portfolio :: "(month_label \<times> string) list" where
  "ex_portfolio = [((2021, 1), ''aaa''), ((2021, 2), ''aaa'')]"

text \<open>The spec's words for a lookup miss: the symbol has no bar data for the execution month,
  either no frame at all or a frame with no row dated in that month.\<close>

definition has_bars :: "(string \<times> bar list) list \<Rightarrow> month_label \<times> string \<Rightarrow> bool" where
  "has_bars stocks p =
     (case map_of stocks (snd p) of
        None \<Rightarrow> False
      | Some df \<Rightarrow> list_ex (\<lambda>r. strftime_Ym (Date r) = fst p) df)"

section \<open>Properties\<close>

subsection \<open>The price loader\<close>

lemma get_stocks_no_googl: "''googl'' \<notin> fst ` set (get_stocks yf symbols)"
  by (auto simp: get_stocks_def AList.delete_eq)

subsection \<open>The momentum scorer\<close>

lemma length_shift_m1: "length (shift_m1 xs) = length xs"
  by (cases xs) (simp_all add: shift_m1_def)

lemma shift_m1_nth:
  "i < length xs \<Longrightarrow> shift_m1 xs ! i = (if i + 1 < length xs then xs ! (i + 1) else None)"
  by (cases xs) (auto simp: shift_m1_def nth_append)

lemma length_rolling_sum: "length (rolling_sum n xs) = length xs"
  by (simp add: rolling_sum_def)

lemma length_reindex: "length (reindex n col) = n"
  by (simp add: reindex_def)

lemma reindex_nth: "i < n \<Longrightarrow> reindex n col ! i = (if i < length col then col ! i else None)"
  by (simp add: reindex_def)

lemma sum_list_take_drop:
  "k + n \<le> length xs \<Longrightarrow> sum_list (take n (drop k xs)) = (\<Sum>j\<leftarrow>[k..<k + n]. xs ! j)"
proof -
  assume a: "k + n \<le> length xs"
  have "take n (drop k xs) = map (nth xs) [k..<k + n]"
    using a by (intro nth_equalityI) auto
  then show ?thesis by simp
qed

lemma rolling_sum_nth:
  "i < length xs \<Longrightarrow> rolling_sum n xs ! i =
     (if n \<le> i + 1 then Some (\<Sum>j\<leftarrow>[i + 1 - n..<i + 1]. xs ! j) else None)"
  using sum_list_take_drop [of "i + 1 - n" n xs] by (auto simp: rolling_sum_def)

lemma dircount_nth:
  "i < length df \<Longrightarrow>
     shift_m1 (rolling_sum h (map m_changes df)) ! i = dircount_aligned h df i"
  by (auto simp: shift_m1_nth length_rolling_sum rolling_sum_nth dircount_aligned_def
      intro!: arg_cong [where f = sum_list])

lemma roc_column_nth:
  "i < length df \<Longrightarrow> roc_column roc shifted h df ! i = roc_aligned roc shifted h df i"
  by (auto simp: roc_column_def roc_aligned_def Let_def reindex_nth length_shift_m1 shift_m1_nth)

lemma length_roc_column: "length (roc_column roc shifted h df) = length df"
  by (simp add: roc_column_def Let_def length_reindex)

lemma np_where_spec: "np_where r c = spec_score r c"
  by (auto simp: np_where_def spec_score_def py_gt0_def split: option.splits)

lemma changes_column_nth:
  "i < length df \<Longrightarrow>
     changes_column roc shifted h df ! i
       = spec_score (roc_aligned roc shifted h df i) (dircount_aligned h df i)"
  by (simp add: changes_column_def roc_column_nth dircount_nth np_where_spec
      length_shift_m1 length_rolling_sum length_roc_column)

text \<open>
  C1. For every row of a symbol's monthly frame and every horizon h in 3, 6, 9, 12, the
  column \<open>changes_h\<close> that \<open>momentum\<close> writes is the trailing h-month direction count, aligned
  one month earlier, plus a thousandth of the aligned roc when both are strictly positive,
  and the direction count alone otherwise, also when either one is undefined. The backtest
  aligns roc one month earlier as well, the screener does not.
\<close>

theorem momentum_score:
  assumes "i < length df" and "h \<in> {3, 6, 9, 12}"
  shows "changes_h h (momentum roc df ! i)
           = spec_score (roc_aligned roc True h df i) (dircount_aligned h df i)
       \<and> changes_h h (momentum_screener roc df ! i)
           = spec_score (roc_aligned roc False h df i) (dircount_aligned h df i)"
  using assms
  by (auto simp: momentum_def momentum_screener_def momentum_with_def changes_h_def changes_column_nth)

theorem momentum_score_witness:
  "(2::nat) < length ex_df \<and> (3::nat) \<in> {3, 6, 9, 12}
   \<and> changes_h 3 (momentum roc_spec ex_df ! 2) = Some (6 + 3 / 10000)
   \<and> changes_h 3 (momentum_screener roc_spec ex_df ! 2) = Some 6
   \<and> changes_h 3 (momentum roc_spec ex_df ! 3) = Some (- 1)
   \<and> changes_h 3 (momentum roc_spec ex_df ! 4) = None"
  using momentum_score [of 2 ex_df 3 roc_spec] momentum_score [of 3 ex_df 3 roc_spec]
    momentum_score [of 4 ex_df 3 roc_spec]
  by (simp add: ex_df_def spec_score_def roc_aligned_def dircount_aligned_def roc_spec_def upt_rec)


subsection \<open>The quantile filter\<close>

lemma interpolate_lower:
  assumes "sorted vs" "0 \<le> p" "nat \<lfloor>p\<rfloor> < length vs"
  shows "vs ! nat \<lfloor>p\<rfloor> \<le> interpolate vs p"
proof -
  let ?i = "nat \<lfloor>p\<rfloor>"
  have f: "0 \<le> p - real ?i" using assms(2) by simp
  show ?thesis
  proof (cases "?i + 1 < length vs")
    case True
    then have "vs ! ?i \<le> vs ! (?i + 1)" using assms(1) by (simp add: sorted_nth_mono)
    then have "0 \<le> (p - real ?i) * (vs ! (?i + 1) - vs ! ?i)" using f by simp
    then show ?thesis using True by (simp add: interpolate_def Let_def)
  next
    case False
    then show ?thesis by (simp add: interpolate_def Let_def)
  qed
qed

lemma interpolate_upper:
  assumes "sorted vs" "0 \<le> p" "nat \<lfloor>p\<rfloor> + 1 < length vs"
  shows "interpolate vs p \<le> vs ! (nat \<lfloor>p\<rfloor> + 1)"
proof -
  let ?i = "nat \<lfloor>p\<rfloor>"
  have f: "p - real ?i \<le> 1" using assms(2) by simp linarith
  have d: "0 \<le> vs ! (?i + 1) - vs ! ?i" using assms(1,3) by (simp add: sorted_nth_mono)
  have "(p - real ?i) * (vs ! (?i + 1) - vs ! ?i) \<le> 1 * (vs ! (?i + 1) - vs ! ?i)"
    using f d by (rule mult_right_mono)
  then show ?thesis using assms(3) by (simp add: interpolate_def Let_def)
qed

lemma interpolate_mono:
  assumes s: "sorted vs" and p1: "0 \<le> p1" and le: "p1 \<le> p2"
    and p2: "p2 \<le> real (length vs - 1)" and ne: "vs \<noteq> []"
  shows "interpolate vs p1 \<le> interpolate vs p2"
proof -
  let ?i = "nat \<lfloor>p1\<rfloor>" and ?j = "nat \<lfloor>p2\<rfloor>"
  have ij: "?i \<le> ?j" using le by (simp add: floor_mono nat_mono)
  have "\<lfloor>p2\<rfloor> \<le> int (length vs - 1)" using p2 by (simp add: floor_le_iff) 
  then have jn: "?j < length vs" using ne by (cases vs) auto
  show ?thesis
  proof (cases "?i = ?j")
    case True
    show ?thesis
    proof (cases "?i + 1 < length vs")
      case True2: True
      have d: "0 \<le> vs ! (?i + 1) - vs ! ?i" using s True2 by (simp add: sorted_nth_mono)
      have "(p1 - real ?i) * (vs ! (?i + 1) - vs ! ?i) \<le> (p2 - real ?i) * (vs ! (?i + 1) - vs ! ?i)"
        using le d by (intro mult_right_mono) auto
      then show ?thesis using True True2 by (simp add: interpolate_def Let_def)
    next
      case False
      then show ?thesis using True by (simp add: interpolate_def Let_def)
    qed
  next
    case False
    then have lt: "?i + 1 \<le> ?j" using ij by simp
    then have "interpolate vs p1 \<le> vs ! (?i + 1)"
      using interpolate_upper [OF s p1] jn by simp
    also have "\<dots> \<le> vs ! ?j" using s lt jn by (simp add: sorted_nth_mono)
    also have "\<dots> \<le> interpolate vs p2"
      using interpolate_lower [OF s _ jn] p1 le by simp
    finally show ?thesis .
  qed
qed

lemma quantile_in_range:
  "0 \<le> q \<Longrightarrow> q \<le> 1 \<Longrightarrow>
     quantile q row = Inr (if defined row = [] then None
                           else Some (interpolate (sort (defined row)) (q * real (length (defined row) - 1))))"
  by (auto simp: quantile_def Let_def dest: arg_cong [where f = length])

lemma quantile_mono:
  assumes "0 \<le> q1" "q1 \<le> q2" "q2 \<le> 1"
  shows "\<exists>t1 t2. quantile q1 row = Inr t1 \<and> quantile q2 row = Inr t2
           \<and> (\<forall>v. py_lt v t1 \<longrightarrow> py_lt v t2)"
proof (cases "defined row = []")
  case True
  then show ?thesis using assms by (simp add: quantile_in_range py_lt_def split: option.splits)
next
  case False
  let ?vs = "sort (defined row)"
  let ?n = "length (defined row)"
  have "interpolate ?vs (q1 * real (?n - 1)) \<le> interpolate ?vs (q2 * real (?n - 1))"
  proof (rule interpolate_mono)
    show "sorted ?vs" by simp
    show "0 \<le> q1 * real (?n - 1)" using assms by simp
    show "q1 * real (?n - 1) \<le> q2 * real (?n - 1)" using assms by (simp add: mult_right_mono)
    show "q2 * real (?n - 1) \<le> real (length ?vs - 1)"
      using assms mult_right_mono [of q2 1 "real (?n - 1)"] by simp
    show "?vs \<noteq> []" using False by (metis length_0_conv length_sort)
  qed
  then show ?thesis using assms False
    by (auto simp: quantile_in_range py_lt_def split: option.splits)
qed

lemma length_filter_mono:
  "(\<And>x. x \<in> set xs \<Longrightarrow> P x \<Longrightarrow> Q x) \<Longrightarrow> length (filter P xs) \<le> length (filter Q xs)"
  by (induction xs) auto

text \<open>
  C9. For a fixed cross-section, the low-momentum exclusion is monotone in the quantile
  level: for levels \<open>q1 \<le> q2\<close> in [0, 1] both exclusions are computed, every symbol excluded
  at \<open>q1\<close> is excluded at \<open>q2\<close>, and the number of excluded symbols does not decrease.
\<close>

theorem low_momentum_monotone:
  assumes "0 \<le> q1" "q1 \<le> q2" "q2 \<le> 1"
  shows "\<exists>e1 e2. low_momentum q1 cs = Inr e1 \<and> low_momentum q2 cs = Inr e2
           \<and> set e1 \<subseteq> set e2 \<and> length e1 \<le> length e2"
proof -
  obtain t1 t2 where q: "quantile q1 (map snd cs) = Inr t1" "quantile q2 (map snd cs) = Inr t2"
    and lt: "\<And>v. py_lt v t1 \<Longrightarrow> py_lt v t2"
    using quantile_mono [OF assms, of "map snd cs"] by blast
  have "length (filter (\<lambda>(symbol, v). py_lt v t1) cs) \<le> length (filter (\<lambda>(symbol, v). py_lt v t2) cs)"
    by (rule length_filter_mono) (auto dest: lt)
  then show ?thesis using q lt by (auto simp: low_momentum_def)
qed


theorem low_momentum_monotone_witness:
  "(0::real) \<le> 15 / 100 \<and> (15 / 100 :: real) \<le> 9 / 10 \<and> (9 / 10 :: real) \<le> 1
   \<and> low_momentum (15 / 100) ex_cs = Inr [''b'']
   \<and> low_momentum (9 / 10) ex_cs = Inr [''a'', ''b'', ''c'', ''e'', ''f'', ''h'', ''i'']
   \<and> set [''b''] \<subseteq> set [''a'', ''b'', ''c'', ''e'', ''f'', ''h'', ''i'']"
  using low_momentum_monotone [of "15 / 100" "9 / 10" ex_cs]
  by (simp add: quantile_def defined_def List.map_filter_def interpolate_def Let_def
      low_momentum_def py_lt_def ex_cs_def)


lemma collect_Inr: "collect ys = Inr vs \<Longrightarrow> ys = map Inr vs"
  by (induction ys arbitrary: vs) (auto split: sum.splits)

lemma map_upds_distinct_apply:
  "distinct (map k xs) \<Longrightarrow> x \<in> set xs \<Longrightarrow> (m(map k xs [\<mapsto>] map v xs)) (k x) = Some (v x)"
proof (induction xs arbitrary: m)
  case Nil
  then show ?case by simp
next
  case (Cons a xs)
  have d: "distinct (map k xs)" using Cons.prems(1) by simp
  show ?case
  proof (cases "x \<in> set xs")
    case True
    have "((m(k a \<mapsto> v a))(map k xs [\<mapsto>] map v xs)) (k x) = Some (v x)"
      by (rule Cons.IH [OF d True])
    then show ?thesis by simp
  next
    case False
    then have xa: "x = a" using Cons.prems(2) by simp
    have "k a \<notin> set (map k xs)" using Cons.prems(1) by simp
    then have "((m(k a \<mapsto> v a))(map k xs [\<mapsto>] map v xs)) (k a) = (m(k a \<mapsto> v a)) (k a)"
      by (rule map_upds_apply_nontin)
    then show ?thesis unfolding xa by simp
  qed
qed


lemma quantile_low_total: "\<exists>t. quantile QUANTILE_LOW_MOMENTUM row = Inr t"
  by (simp add: quantile_def QUANTILE_LOW_MOMENTUM_def Let_def)

lemma neg_pass_get:
  assumes d: "distinct (map t_month tbl)" and p: "neg_pass f tbl neg = Inr neg'"
    and r: "row \<in> set tbl"
  shows "\<exists>symbols. f (cols row) = Inr symbols
           \<and> neg_get neg' (t_month row) = neg_get neg (t_month row) @ symbols"
proof -
  define g where "g = (\<lambda>row :: table_row. case f (cols row) of Inl e \<Rightarrow> Inl e
              | Inr symbols \<Rightarrow> Inr (t_month row, neg_get neg (t_month row) @ symbols))"
  define v where "v = (\<lambda>row :: table_row. neg_get neg (t_month row) @ projr (f (cols row)))"
  obtain kvs where c: "collect (map g tbl) = Inr kvs"
    and n: "neg' = AList.updates (map fst kvs) (map snd kvs) neg"
    using p unfolding neg_pass_def g_def by (cases "collect (map g tbl)") (auto simp: g_def)
  have m: "map g tbl = map Inr kvs" using c by (rule collect_Inr)
  have all: "\<exists>s. f (cols x) = Inr s" if "x \<in> set tbl" for x
  proof -
    have "g x \<in> set (map g tbl)" using that by simp
    then obtain kv where "g x = Inr kv" unfolding m by auto
    then show ?thesis unfolding g_def by (cases "f (cols x)") auto
  qed
  have gv: "g x = Inr (t_month x, v x)" if "x \<in> set tbl" for x
    using all [OF that] unfolding g_def v_def by auto
  have "map g tbl = map (\<lambda>x. Inr (t_month x, v x)) tbl"
    by (rule map_cong) (simp_all add: gv)
  then have "map Inr kvs = map (\<lambda>x. Inr (t_month x, v x) :: py_error + _) tbl"
    using m by simp
  then have "map (Inr :: _ \<Rightarrow> py_error + _) kvs = map Inr (map (\<lambda>x. (t_month x, v x)) tbl)"
    by simp
  then have kvs: "kvs = map (\<lambda>x. (t_month x, v x)) tbl"
    by (simp only: inj_map_eq_map [OF inj_Inr])
  have "map_of neg' (t_month row) = Some (v row)"
    using map_upds_distinct_apply [OF d r, of "map_of neg" v]
    by (simp add: n kvs updates_conv' comp_def)
  then show ?thesis using all [OF r] unfolding v_def neg_get_def by auto
qed


lemma collect_all_Inr:
  "(\<And>x. x \<in> set xs \<Longrightarrow> \<exists>v. g x = Inr v) \<Longrightarrow> \<exists>vs. collect (map g xs) = Inr vs"
proof (induction xs)
  case Nil
  then show ?case by simp
next
  case (Cons a xs)
  obtain v where v: "g a = Inr v" using Cons.prems [of a] by auto
  obtain vs where "collect (map g xs) = Inr vs" using Cons by auto
  then show ?case using v by simp
qed

lemma neg_pass_total:
  assumes "\<And>row. row \<in> set tbl \<Longrightarrow> \<exists>symbols. f (cols row) = Inr symbols"
  shows "\<exists>neg'. neg_pass f tbl neg = Inr neg'"
proof -
  let ?g = "\<lambda>row :: table_row. case f (cols row) of Inl e \<Rightarrow> Inl e
              | Inr symbols \<Rightarrow> Inr (t_month row, neg_get neg (t_month row) @ symbols)"
  have "\<exists>vs. collect (map ?g tbl) = Inr vs"
  proof (rule collect_all_Inr)
    fix x assume "x \<in> set tbl"
    then obtain symbols where "f (cols x) = Inr symbols" using assms by blast
    then show "\<exists>v. ?g x = Inr v" by simp
  qed
  then show ?thesis by (auto simp: neg_pass_def)
qed

lemma low_momentum_total: "\<exists>symbols. low_momentum QUANTILE_LOW_MOMENTUM cs = Inr symbols"
  using quantile_low_total [of "map snd cs"] by (auto simp: low_momentum_def)

lemma low_momentum_set:
  "low_momentum q cs = Inr e \<Longrightarrow> symbol \<in> set e \<longleftrightarrow> strictly_below q cs symbol"
  by (auto simp: low_momentum_def strictly_below_def py_lt_def list_ex_iff
      split: sum.splits option.splits) force+

lemma merge_table_months: "map t_month (merge_table col index stocks) = map i_month index"
  by (simp add: merge_table_def comp_def)

lemma merge_table_row:
  "ix \<in> set index \<Longrightarrow>
     \<exists>row \<in> set (merge_table col index stocks).
        t_month row = i_month ix \<and> cols row = cells col (i_month ix) stocks"
  by (auto simp: merge_table_def intro!: bexI [of _ ix])

text \<open>
  C2 (as the code has it). For an index with distinct month labels and each of its months,
  the two low-momentum passes (horizons 6 and 9) succeed, and after them a symbol is in the
  month's exclusion list exactly when its horizon-6 score or its horizon-9 score is defined
  and strictly below the 15th percentile (linear interpolation over the defined scores of
  that month). A score equal to the threshold does not exclude the symbol.
\<close>

theorem low_momentum_exclusion:
  assumes d: "distinct (map i_month index)" and ix: "ix \<in> set index"
  shows "\<exists>neg6 neg9.
           neg_pass (low_momentum QUANTILE_LOW_MOMENTUM) (merge_table changes_6 index stocks) [] = Inr neg6
         \<and> neg_pass (low_momentum QUANTILE_LOW_MOMENTUM) (merge_table changes_9 index stocks) neg6 = Inr neg9
         \<and> (\<forall>symbol. symbol \<in> set (neg_get neg9 (i_month ix)) \<longleftrightarrow>
               strictly_below QUANTILE_LOW_MOMENTUM (cells changes_6 (i_month ix) stocks) symbol
             \<or> strictly_below QUANTILE_LOW_MOMENTUM (cells changes_9 (i_month ix) stocks) symbol)"
proof -
  let ?f = "low_momentum QUANTILE_LOW_MOMENTUM"
  let ?t6 = "merge_table changes_6 index stocks" and ?t9 = "merge_table changes_9 index stocks"
  obtain neg6 where n6: "neg_pass ?f ?t6 [] = Inr neg6"
    using neg_pass_total [of ?t6 ?f "[]"] low_momentum_total by blast
  obtain neg9 where n9: "neg_pass ?f ?t9 neg6 = Inr neg9"
    using neg_pass_total [of ?t9 ?f neg6] low_momentum_total by blast
  obtain r6 where r6: "r6 \<in> set ?t6" "t_month r6 = i_month ix"
      "cols r6 = cells changes_6 (i_month ix) stocks"
    using merge_table_row [OF ix] by blast
  obtain r9 where r9: "r9 \<in> set ?t9" "t_month r9 = i_month ix"
      "cols r9 = cells changes_9 (i_month ix) stocks"
    using merge_table_row [OF ix] by blast
  have d6: "distinct (map t_month ?t6)" and d9: "distinct (map t_month ?t9)"
    using d by (simp_all add: merge_table_months)
  obtain e6 where e6: "?f (cols r6) = Inr e6"
      "neg_get neg6 (t_month r6) = neg_get [] (t_month r6) @ e6"
    using neg_pass_get [OF d6 n6 r6(1)] by blast
  obtain e9 where e9: "?f (cols r9) = Inr e9"
      "neg_get neg9 (t_month r9) = neg_get neg6 (t_month r9) @ e9"
    using neg_pass_get [OF d9 n9 r9(1)] by blast
  have "neg_get neg9 (i_month ix) = e6 @ e9"
    using e6(2) e9(2) r6(2) r9(2) by (simp add: neg_get_def)
  then have "\<forall>symbol. symbol \<in> set (neg_get neg9 (i_month ix)) \<longleftrightarrow>
               strictly_below QUANTILE_LOW_MOMENTUM (cells changes_6 (i_month ix) stocks) symbol
             \<or> strictly_below QUANTILE_LOW_MOMENTUM (cells changes_9 (i_month ix) stocks) symbol"
    using low_momentum_set [OF e6(1)] low_momentum_set [OF e9(1)] r6(3) r9(3) by simp
  then show ?thesis using n6 n9 by blast
qed


lemmas eval_quantile = quantile_def defined_def List.map_filter_def interpolate_def Let_def
  low_momentum_def py_lt_def QUANTILE_LOW_MOMENTUM_def

lemmas eval_tables = merge_table_def cells_def lookup_month_def ex_stocks_def ex_index_def
  ex_mrow_def neg_pass_def neg_get_def AList.updates_def

theorem low_momentum_exclusion_witness:
  "distinct (map i_month ex_index) \<and> ex_index ! 0 \<in> set ex_index
   \<and> neg_pass (low_momentum QUANTILE_LOW_MOMENTUM) (merge_table changes_6 ex_index ex_stocks) []
       = Inr [((21, 1), [''bbb'']), ((21, 2), [''aaa''])]
   \<and> neg_pass (low_momentum QUANTILE_LOW_MOMENTUM) (merge_table changes_9 ex_index ex_stocks)
         [((21, 1), [''bbb'']), ((21, 2), [''aaa''])]
       = Inr [((21, 1), [''bbb'']), ((21, 2), [''aaa'', ''aaa''])]
   \<and> strictly_below QUANTILE_LOW_MOMENTUM (cells changes_6 (21, 1) ex_stocks) ''bbb''
   \<and> \<not> strictly_below QUANTILE_LOW_MOMENTUM (cells changes_9 (21, 1) ex_stocks) ''ccc''
   \<and> (\<exists>neg6 neg9.
         neg_pass (low_momentum QUANTILE_LOW_MOMENTUM) (merge_table changes_6 ex_index ex_stocks) [] = Inr neg6
       \<and> neg_pass (low_momentum QUANTILE_LOW_MOMENTUM) (merge_table changes_9 ex_index ex_stocks) neg6 = Inr neg9
       \<and> (\<forall>symbol. symbol \<in> set (neg_get neg9 (i_month (ex_index ! 0))) \<longleftrightarrow>
             strictly_below QUANTILE_LOW_MOMENTUM (cells changes_6 (i_month (ex_index ! 0)) ex_stocks) symbol
           \<or> strictly_below QUANTILE_LOW_MOMENTUM (cells changes_9 (i_month (ex_index ! 0)) ex_stocks) symbol))"
proof -
  have h1: "distinct (map i_month ex_index)" by (simp add: ex_index_def)
  have h2: "ex_index ! 0 \<in> set ex_index" by (simp add: ex_index_def)
  have e6: "neg_pass (low_momentum QUANTILE_LOW_MOMENTUM) (merge_table changes_6 ex_index ex_stocks) []
       = Inr [((21, 1), [''bbb'']), ((21, 2), [''aaa''])]"
    by (simp add: eval_quantile eval_tables)
  have e9: "neg_pass (low_momentum QUANTILE_LOW_MOMENTUM) (merge_table changes_9 ex_index ex_stocks)
         [((21, 1), [''bbb'']), ((21, 2), [''aaa''])]
       = Inr [((21, 1), [''bbb'']), ((21, 2), [''aaa'', ''aaa''])]"
    by (simp add: eval_quantile eval_tables)
  have b1: "strictly_below QUANTILE_LOW_MOMENTUM (cells changes_6 (21, 1) ex_stocks) ''bbb''"
    by (simp add: strictly_below_def eval_quantile eval_tables)
  have b2: "\<not> strictly_below QUANTILE_LOW_MOMENTUM (cells changes_9 (21, 1) ex_stocks) ''ccc''"
    by (simp add: strictly_below_def eval_quantile eval_tables)
  show ?thesis
    using h1 h2 e6 e9 b1 b2 low_momentum_exclusion [OF h1 h2, of ex_stocks] by blast
qed

text \<open>
  The claim as written (at or below) fails: in \<open>ex_cs\<close> the threshold is 1, symbol \<open>a\<close> has the
  score 1, and it is not excluded.
\<close>

theorem low_momentum_threshold_counterexample:
  "quantile QUANTILE_LOW_MOMENTUM (map snd ex_cs) = Inr (Some 1)
   \<and> (''a'', Some 1) \<in> set ex_cs
   \<and> low_momentum QUANTILE_LOW_MOMENTUM ex_cs = Inr [''b'']
   \<and> ''a'' \<notin> set [''b'']"
  by (simp add: eval_quantile ex_cs_def)


subsection \<open>The selector\<close>

lemma dropna_cols_iff:
  "(s, v) \<in> set (f_cols (dropna_row row)) \<longleftrightarrow> (s, Some v) \<in> set (cols row)"
  by (force simp: dropna_row_def List.map_filter_def split: option.splits)

lemma tail_length: "length (tail n xs) = min n (length xs)"
  by (simp add: tail_def)

lemma tail_split: "xs = take (length xs - n) xs @ tail n xs"
  by (simp add: tail_def)

lemma sorted_tail_largest:
  assumes "sorted (map snd xs)" and "a \<in> set (take (length xs - n) xs)" and "b \<in> set (tail n xs)"
  shows "snd a \<le> snd b"
proof -
  have "sorted (map snd (take (length xs - n) xs) @ map snd (tail n xs))"
    using assms(1) tail_split [of xs n] by (metis map_append)
  then show ?thesis using assms(2,3) by (auto simp: sorted_append)
qed

lemma length_eligible:
  "length (filter (\<lambda>(symbol, beta). 0 < beta)
             (List.map_filter (\<lambda>(symbol, v). map_option (Pair symbol) v) cs))
     = length (filter (\<lambda>(s, v). py_gt v (Some 0)) cs)"
  by (induction cs) (auto simp: List.map_filter_def py_gt_def py_lt_def split: option.splits)

lemma get_top_stocks_props:
  assumes ok: "sort_values_ok srt"
    and dist: "distinct (map fst (cols row))"
    and sel: "get_top_stocks srt (dropna_row row) = Inr sel"
  shows "length sel = min MAX_STOCKS (length (filter (\<lambda>(s, v). py_gt v (Some 0)) (cols row)))"
    and "\<forall>s \<in> set sel. \<exists>v. (s, Some v) \<in> set (cols row) \<and> 0 < v"
    and "\<forall>s v t w. (s, Some v) \<in> set (cols row) \<and> 0 < v \<and> s \<notin> set sel
            \<and> t \<in> set sel \<and> (t, Some w) \<in> set (cols row) \<longrightarrow> v \<le> w"
proof -
  let ?el = "filter (\<lambda>(symbol, beta). 0 < beta) (f_cols (dropna_row row))"
  let ?L = "srt ?el"
  have m: "mset ?L = mset ?el" and s: "sorted (map snd ?L)"
    using ok by (simp_all add: sort_values_ok_def)
  have set_L: "set ?L = set ?el" using m by (metis set_mset_mset)
  have len_L: "length ?L = length ?el" using m by (metis size_mset)
  have t: "sel = map fst (tail MAX_STOCKS ?L)"
    using sel by (auto simp: get_top_stocks_def split: if_splits)
  show "length sel = min MAX_STOCKS (length (filter (\<lambda>(s, v). py_gt v (Some 0)) (cols row)))"
  proof -
    have "length ?el = length (filter (\<lambda>(s, v). py_gt v (Some 0)) (cols row))"
      by (simp add: dropna_row_def length_eligible)
    then show ?thesis unfolding t by (simp only: length_map tail_length len_L)
  qed
  show "\<forall>s \<in> set sel. \<exists>v. (s, Some v) \<in> set (cols row) \<and> 0 < v"
  proof
    fix s assume "s \<in> set sel"
    then obtain v where "(s, v) \<in> set (tail MAX_STOCKS ?L)" unfolding t by auto
    then have "(s, v) \<in> set ?L" unfolding tail_def by (meson in_set_dropD)
    then have "(s, v) \<in> set ?el" using set_L by simp
    then show "\<exists>v. (s, Some v) \<in> set (cols row) \<and> 0 < v"
      by (auto simp: dropna_cols_iff)
  qed
  show "\<forall>s v t w. (s, Some v) \<in> set (cols row) \<and> 0 < v \<and> s \<notin> set sel
            \<and> t \<in> set sel \<and> (t, Some w) \<in> set (cols row) \<longrightarrow> v \<le> w"
  proof (intro allI impI, elim conjE)
    fix s v t' w
    assume sv: "(s, Some v) \<in> set (cols row)" and v: "0 < v" and ns: "s \<notin> set sel"
      and tt: "t' \<in> set sel" and tw: "(t', Some w) \<in> set (cols row)"
    have "(s, v) \<in> set ?L" using sv v set_L by (simp add: dropna_cols_iff)
    then have "(s, v) \<in> set (take (length ?L - MAX_STOCKS) ?L) \<or> (s, v) \<in> set (tail MAX_STOCKS ?L)"
      using tail_split [of ?L MAX_STOCKS] by (metis Un_iff set_append)
    moreover have "(s, v) \<notin> set (tail MAX_STOCKS ?L)" using ns unfolding t by force
    ultimately have a: "(s, v) \<in> set (take (length ?L - MAX_STOCKS) ?L)" by blast
    obtain w' where b: "(t', w') \<in> set (tail MAX_STOCKS ?L)" using tt unfolding t by auto
    then have "(t', w') \<in> set ?L" unfolding tail_def by (meson in_set_dropD)
    then have "(t', Some w') \<in> set (cols row)" using set_L by (simp add: dropna_cols_iff)
    then have "w' = w" using tw dist by (metis eq_key_imp_eq_value option.inject)
    then show "v \<le> w" using sorted_tail_largest [OF s a b] by simp
  qed
qed


lemma dropna_keys_sub:
  "(s, v) \<in> set (List.map_filter (\<lambda>(symbol, v). map_option (Pair symbol) v) cs) \<Longrightarrow>
     s \<in> fst ` set cs"
  by (induction cs) (auto split: option.splits)

lemma dropna_keys_distinct:
  "distinct (map fst cs) \<Longrightarrow>
     distinct (map fst (filter (\<lambda>(symbol, beta). 0 < beta)
        (List.map_filter (\<lambda>(symbol, v). map_option (Pair symbol) v) cs)))"
proof (induction cs)
  case Nil
  then show ?case by simp
next
  case (Cons c cs)
  obtain s v where c: "c = (s, v)" by (cases c)
  have ih: "distinct (map fst (filter (\<lambda>(symbol, beta). 0 < beta)
        (List.map_filter (\<lambda>(symbol, v). map_option (Pair symbol) v) cs)))"
    using Cons by simp
  have ns: "s \<notin> fst ` set (filter (\<lambda>(symbol, beta). 0 < beta)
        (List.map_filter (\<lambda>(symbol, v). map_option (Pair symbol) v) cs))"
  proof
    assume "s \<in> fst ` set (filter (\<lambda>(symbol, beta). 0 < beta)
        (List.map_filter (\<lambda>(symbol, v). map_option (Pair symbol) v) cs))"
    then obtain w where "(s, w) \<in> set (List.map_filter (\<lambda>(symbol, v). map_option (Pair symbol) v) cs)"
      by auto
    then have "s \<in> fst ` set cs" by (rule dropna_keys_sub)
    then show False using Cons.prems c by simp
  qed
  show ?case
  proof (cases v)
    case None
    then show ?thesis using ih c by simp
  next
    case (Some x)
    then show ?thesis using ih ns c by simp
  qed
qed

lemma get_top_stocks_distinct:
  assumes ok: "sort_values_ok srt"
    and dist: "distinct (map fst (cols row))"
    and sel: "get_top_stocks srt (dropna_row row) = Inr sel"
  shows "distinct sel"
proof -
  let ?el = "filter (\<lambda>(symbol, beta). 0 < beta) (f_cols (dropna_row row))"
  let ?L = "srt ?el"
  have m: "mset ?L = mset ?el" using ok by (simp add: sort_values_ok_def)
  have "distinct (map fst ?el)" using dropna_keys_distinct [OF dist] by (simp add: dropna_row_def)
  moreover have "mset (map fst ?L) = mset (map fst ?el)" using m by (metis mset_map)
  ultimately have "distinct (map fst ?L)" by (metis mset_eq_imp_distinct_iff)
  then have "distinct (drop (length ?L - MAX_STOCKS) (map fst ?L))" by (rule distinct_drop)
  moreover have "sel = map fst (tail MAX_STOCKS ?L)"
    using sel by (auto simp: get_top_stocks_def split: if_splits)
  ultimately show ?thesis by (simp add: tail_def drop_map)
qed


lemma sort_key_snd_ok: "sort_values_ok (sort_key snd)"
  by (simp add: sort_values_ok_def)

text \<open>
  C3. For every row of the final table (its symbol columns being distinct) the selector
  returns a list and never an error; the list has at most 10 symbols, no symbol twice, each
  with a defined, strictly positive \<open>score_12\<close>; no eligible symbol left out has a larger score
  than a selected one; when the month passes the gate the list has 10 symbols or all eligible
  ones if there are fewer; and the list is empty when the index close is not strictly above
  its moving average.
\<close>

theorem selector_top_ten:
  assumes ok: "sort_values_ok srt" and dist: "distinct (map fst (cols row))"
  shows "\<exists>sel. select_month srt mx row = Inr sel
           \<and> length sel \<le> 10
           \<and> distinct sel
           \<and> (\<forall>s \<in> set sel. \<exists>v. (s, Some v) \<in> set (cols row) \<and> 0 < v)
           \<and> (\<forall>s v t w. (s, Some v) \<in> set (cols row) \<and> 0 < v \<and> s \<notin> set sel
                  \<and> t \<in> set sel \<and> (t, Some w) \<in> set (cols row) \<longrightarrow> v \<le> w)
           \<and> (py_gt (t_Close row) (t_sma row) \<and> Some (t_month row) \<noteq> mx \<longrightarrow>
                length sel = min 10 (length (filter (\<lambda>(s, v). py_gt v (Some 0)) (cols row))))
           \<and> (\<not> py_gt (t_Close row) (t_sma row) \<longrightarrow> sel = [])"
proof (cases "py_gt (t_Close row) (t_sma row) \<and> Some (t_month row) \<noteq> mx")
  case True
  then have "f_Close (dropna_row row) \<noteq> None" "f_sma (dropna_row row) \<noteq> None"
    by (auto simp: py_gt_def py_lt_def dropna_row_def split: option.splits)
  then obtain sel where sel: "get_top_stocks srt (dropna_row row) = Inr sel"
    by (simp add: get_top_stocks_def)
  have s: "select_month srt mx row = Inr sel" using True sel by (simp add: select_month_def)
  have "length sel \<le> 10"
    using get_top_stocks_props(1) [OF ok dist sel] by (simp add: MAX_STOCKS_def)
  then show ?thesis
    using s True get_top_stocks_props [OF ok dist sel] get_top_stocks_distinct [OF ok dist sel]
    by (simp add: MAX_STOCKS_def)
next
  case False
  then have "select_month srt mx row = Inr []" by (auto simp: select_month_def)
  then show ?thesis using False by auto
qed

theorem selector_top_ten_witness:
  "sort_values_ok (sort_key snd) \<and> distinct (map fst (cols ex_row))
   \<and> select_month (sort_key snd) None ex_row
       = Inr [''s14'', ''s10'', ''s01'', ''s13'', ''s05'', ''s12'', ''s07'', ''s15'', ''s09'', ''s02'']
   \<and> select_month (sort_key snd) None (ex_row\<lparr>t_sma := Some 3800\<rparr>) = Inr []
   \<and> (\<exists>sel. select_month (sort_key snd) None ex_row = Inr sel
           \<and> length sel \<le> 10
           \<and> distinct sel
           \<and> (\<forall>s \<in> set sel. \<exists>v. (s, Some v) \<in> set (cols ex_row) \<and> 0 < v)
           \<and> (\<forall>s v t w. (s, Some v) \<in> set (cols ex_row) \<and> 0 < v \<and> s \<notin> set sel
                  \<and> t \<in> set sel \<and> (t, Some w) \<in> set (cols ex_row) \<longrightarrow> v \<le> w)
           \<and> (py_gt (t_Close ex_row) (t_sma ex_row) \<and> Some (t_month ex_row) \<noteq> None \<longrightarrow>
                length sel = min 10 (length (filter (\<lambda>(s, v). py_gt v (Some 0)) (cols ex_row))))
           \<and> (\<not> py_gt (t_Close ex_row) (t_sma ex_row) \<longrightarrow> sel = []))"
proof -
  have h1: "sort_values_ok (sort_key snd)" by (rule sort_key_snd_ok)
  have h2: "distinct (map fst (cols ex_row))" by (simp add: ex_row_def)
  have e1: "select_month (sort_key snd) None ex_row
       = Inr [''s14'', ''s10'', ''s01'', ''s13'', ''s05'', ''s12'', ''s07'', ''s15'', ''s09'', ''s02'']"
    by (simp add: select_month_def py_gt_def py_lt_def get_top_stocks_def dropna_row_def
        List.map_filter_def tail_def MAX_STOCKS_def ex_row_def)
  have e2: "select_month (sort_key snd) None (ex_row\<lparr>t_sma := Some 3800\<rparr>) = Inr []"
    by (simp add: select_month_def py_gt_def py_lt_def ex_row_def)
  show ?thesis
    using h1 h2 e1 e2 selector_top_ten [OF h1 h2, of None] by blast
qed


subsection \<open>The universe restrictor\<close>

lemma null_month_eq:
  "null_month lbl df = map (\<lambda>r. if m_month r = lbl then undefined_scores r else r) df"
  by (simp add: null_month_def undefined_scores_def)

lemma undefined_scores_idem [simp]: "undefined_scores (undefined_scores r) = undefined_scores r"
  by (simp add: undefined_scores_def)

lemma undefined_scores_month [simp]: "m_month (undefined_scores r) = m_month r"
  by (simp add: undefined_scores_def)

lemma restrict_universe_keys:
  "restrict_universe sp dates stocks = Inr stocks' \<Longrightarrow> map fst stocks' = map fst stocks"
proof (induction dates arbitrary: stocks)
  case Nil
  then show ?case by simp
next
  case (Cons d rest)
  obtain tickers where g: "get_symbols sp (fst d) (fst (snd d)) 1 = Inr (Some tickers)"
    using Cons.prems by (auto split: sum.splits option.splits)
  let ?step = "map (\<lambda>(symbol, df). if symbol \<in> set (map lower tickers) then (symbol, df)
                   else (symbol, null_month (strftime_ym d) df)) stocks"
  have "restrict_universe sp rest ?step = Inr stocks'"
    using Cons.prems g by (simp add: Let_def)
  from Cons.IH [OF this] have "map fst stocks' = map fst ?step" .
  also have "\<dots> = map fst stocks" by (induction stocks) auto
  finally show ?case .
qed

text \<open>
  C7. When the restrictor loop runs through, every symbol keeps its frame row for row,
  except that in the rows whose month label is the label of an index date at which the symbol
  is not a member, \<open>beta\<close> and the four scores are undefined; all other cells of those rows,
  all other rows of the symbol, and all rows of symbols that are members, are unchanged.
\<close>

theorem restrictor_frame:
  "restrict_universe sp dates stocks = Inr stocks' \<Longrightarrow>
     stocks' = map (\<lambda>(symbol, df).
                 (symbol, map (\<lambda>r. if not_member_in sp dates symbol (m_month r)
                                    then undefined_scores r else r) df)) stocks"
proof (induction dates arbitrary: stocks)
  case Nil
  then show ?case by (simp add: not_member_in_def split_def)
next
  case (Cons d rest)
  obtain tickers where g: "get_symbols sp (fst d) (fst (snd d)) 1 = Inr (Some tickers)"
    using Cons.prems by (auto split: sum.splits option.splits)
  have mem: "members sp d = map lower tickers" using g by (simp add: members_def)
  let ?step = "map (\<lambda>(symbol, df). if symbol \<in> set (map lower tickers) then (symbol, df)
                   else (symbol, null_month (strftime_ym d) df)) stocks"
  have "restrict_universe sp rest ?step = Inr stocks'"
    using Cons.prems g by (simp add: Let_def)
  from Cons.IH [OF this] have "stocks' = map (\<lambda>(symbol, df).
                 (symbol, map (\<lambda>r. if not_member_in sp rest symbol (m_month r)
                                    then undefined_scores r else r) df)) ?step" .
  also have "\<dots> = map (\<lambda>(symbol, df).
                 (symbol, map (\<lambda>r. if not_member_in sp (d # rest) symbol (m_month r)
                                    then undefined_scores r else r) df)) stocks"
    by (auto simp: null_month_eq not_member_in_def mem)
  finally show ?case .
qed


theorem restrictor_frame_witness:
  "restrict_universe ex_sp [(2021, 1, 29), (2021, 2, 26)] ex_stocks
     = Inr [(''aaa'', [ex_mrow (21, 1) (2021, 1, 29) (Some (1 / 100)) (Some 3) (Some 4) (Some 5),
                      ex_mrow (21, 2) (2021, 2, 26) (Some (1 / 100)) (Some 3) (Some 1) (Some 6)]),
            (''bbb'', [ex_mrow (21, 1) (2021, 1, 29) (Some (2 / 100)) (Some 1) (Some 4) (Some 7),
                      ex_mrow (21, 2) (2021, 2, 26) None None None None]),
            (''ccc'', [ex_mrow (21, 1) (2021, 1, 29) (Some (3 / 100)) (Some 3) (Some 4) (Some (- 2)),
                      ex_mrow (21, 2) (2021, 2, 26) (Some (3 / 100)) (Some 5) (Some 4) (Some 9)])]
   \<and> not_member_in ex_sp [(2021, 1, 29), (2021, 2, 26)] ''bbb'' (21, 2)
   \<and> \<not> not_member_in ex_sp [(2021, 1, 29), (2021, 2, 26)] ''bbb'' (21, 1)
   \<and> [(''aaa'', [ex_mrow (21, 1) (2021, 1, 29) (Some (1 / 100)) (Some 3) (Some 4) (Some 5),
                 ex_mrow (21, 2) (2021, 2, 26) (Some (1 / 100)) (Some 3) (Some 1) (Some 6)]),
       (''bbb'', [ex_mrow (21, 1) (2021, 1, 29) (Some (2 / 100)) (Some 1) (Some 4) (Some 7),
                 ex_mrow (21, 2) (2021, 2, 26) None None None None]),
       (''ccc'', [ex_mrow (21, 1) (2021, 1, 29) (Some (3 / 100)) (Some 3) (Some 4) (Some (- 2)),
                 ex_mrow (21, 2) (2021, 2, 26) (Some (3 / 100)) (Some 5) (Some 4) (Some 9)])]
     = map (\<lambda>(symbol, df).
              (symbol, map (\<lambda>r. if not_member_in ex_sp [(2021, 1, 29), (2021, 2, 26)] symbol (m_month r)
                                 then undefined_scores r else r) df)) ex_stocks"
proof -
  have l: "lower ''AAA'' = ''aaa''" "lower ''BBB'' = ''bbb''" "lower ''CCC'' = ''ccc''"
    by code_simp+
  have e: "restrict_universe ex_sp [(2021, 1, 29), (2021, 2, 26)] ex_stocks
     = Inr [(''aaa'', [ex_mrow (21, 1) (2021, 1, 29) (Some (1 / 100)) (Some 3) (Some 4) (Some 5),
                      ex_mrow (21, 2) (2021, 2, 26) (Some (1 / 100)) (Some 3) (Some 1) (Some 6)]),
            (''bbb'', [ex_mrow (21, 1) (2021, 1, 29) (Some (2 / 100)) (Some 1) (Some 4) (Some 7),
                      ex_mrow (21, 2) (2021, 2, 26) None None None None]),
            (''ccc'', [ex_mrow (21, 1) (2021, 1, 29) (Some (3 / 100)) (Some 3) (Some 4) (Some (- 2)),
                      ex_mrow (21, 2) (2021, 2, 26) (Some (3 / 100)) (Some 5) (Some 4) (Some 9)])]"
    by (simp add: ex_sp_def ex_stocks_def get_symbols_def l null_month_def ex_mrow_def
        strftime_ym_def less_eq_prod_def)
  have n1: "not_member_in ex_sp [(2021, 1, 29), (2021, 2, 26)] ''bbb'' (21, 2)"
    by (simp add: not_member_in_def members_def ex_sp_def get_symbols_def l strftime_ym_def
        less_eq_prod_def)
  have n2: "\<not> not_member_in ex_sp [(2021, 1, 29), (2021, 2, 26)] ''bbb'' (21, 1)"
    by (simp add: not_member_in_def members_def ex_sp_def get_symbols_def l strftime_ym_def
        less_eq_prod_def)
  show ?thesis using e n1 n2 restrictor_frame [OF e] by simp
qed

text \<open>
  C5. Without the snapshot file the attribute \<open>df\<close> is \<open>None\<close>. \<open>get_symbols\<close> then returns
  \<open>None\<close>, but \<open>all_symbols\<close>, the first call of \<open>prepare_stocks\<close>, raises AttributeError, and
  the restrictor loop would raise TypeError on its first index date: the run fails.
\<close>

theorem prepare_stocks_without_snapshot_file:
  "get_symbols None year month' day = Inr None
   \<and> all_symbols None = Inl AttributeError
   \<and> prepare_stocks roc round_2 None yf_download index = Inl AttributeError
   \<and> restrict_universe None (index_date # rest) stocks = Inl TypeError"
  by (simp add: get_symbols_def all_symbols_def prepare_stocks_def)


subsection \<open>The symbols that reach the later stages\<close>

lemma fst_if_pair: "fst (if b then (a, x) else (a, y)) = a"
  by simp

lemma apply_neg_keys:
  "row \<in> set (apply_neg neg tbl) \<Longrightarrow> \<exists>row0 \<in> set tbl. map fst (cols row) = map fst (cols row0)"
  by (auto simp: apply_neg_def comp_def split_def fst_if_pair)

lemma merge_table_keys:
  "row \<in> set (merge_table col index stocks) \<Longrightarrow> map fst (cols row) = map fst stocks"
  by (auto simp: merge_table_def cells_def comp_def split_def)

lemma cross_section_keys:
  "cross_section q index stocks = Inr tbl \<Longrightarrow> row \<in> set tbl \<Longrightarrow>
     map fst (cols row) = map fst stocks"
  by (auto simp: cross_section_def split: sum.splits dest!: apply_neg_keys merge_table_keys)

lemma prepare_stocks_keys:
  assumes "prepare_stocks roc round_2 sp yf index = Inr tbl" and "row \<in> set tbl"
  shows "\<exists>symbols. map fst (cols row) = map fst (get_stocks yf symbols)"
proof -
  obtain symbols stocks' where a: "all_symbols sp = Inr symbols"
    and r: "restrict_universe sp (map i_Date index)
              (map (\<lambda>(symbol, df).
                 (symbol, momentum roc (resample_stocks_to_month (max_beta (add_indicators round_2 df)))))
                (get_stocks yf symbols)) = Inr stocks'"
    and c: "cross_section QUANTILE_HIGH_BETA index stocks' = Inr tbl"
    using assms(1) by (auto simp: prepare_stocks_def Let_def split: sum.splits)
  have "map fst (cols row) = map fst stocks'" using cross_section_keys [OF c assms(2)] .
  also have "\<dots> = map fst (get_stocks yf symbols)"
    using restrict_universe_keys [OF r] by (simp add: comp_def split_def)
  finally show ?thesis by blast
qed

lemma get_top_stocks_subset:
  assumes "sort_values_ok srt" and "get_top_stocks srt (dropna_row row) = Inr sel"
  shows "set sel \<subseteq> fst ` set (cols row)"
proof
  fix s assume s: "s \<in> set sel"
  let ?L = "srt (filter (\<lambda>(symbol, beta). 0 < beta) (f_cols (dropna_row row)))"
  have "mset ?L = mset (filter (\<lambda>(symbol, beta). 0 < beta) (f_cols (dropna_row row)))"
    using assms(1) by (simp add: sort_values_ok_def)
  then have set_L: "set ?L = set (filter (\<lambda>(symbol, beta). 0 < beta) (f_cols (dropna_row row)))"
    by (metis set_mset_mset)
  have "sel = map fst (tail MAX_STOCKS ?L)"
    using assms(2) by (auto simp: get_top_stocks_def split: if_splits)
  then obtain v where "(s, v) \<in> set (tail MAX_STOCKS ?L)" using s by auto
  then have "(s, v) \<in> set ?L" unfolding tail_def by (meson in_set_dropD)
  then have "(s, Some v) \<in> set (cols row)" using set_L by (simp add: dropna_cols_iff)
  then show "s \<in> fst ` set (cols row)" by force
qed

lemma select_month_subset:
  assumes "sort_values_ok srt" and "select_month srt mx row = Inr sel"
  shows "set sel \<subseteq> fst ` set (cols row)"
  using assms get_top_stocks_subset [OF assms(1), of row sel]
  by (auto simp: select_month_def split: if_splits)

lemma build_portfolio_subset:
  assumes "sort_values_ok srt"
  shows "build_portfolio srt mx tbl = Inr portfolio \<Longrightarrow>
           snd ` set portfolio \<subseteq> (\<Union>row \<in> set tbl. fst ` set (cols row))"
proof (induction tbl arbitrary: portfolio)
  case Nil
  then show ?case by simp
next
  case (Cons row rows)
  obtain sel rest where s: "select_month srt mx row = Inr sel"
    and b: "build_portfolio srt mx rows = Inr rest"
    and p: "portfolio = map (\<lambda>ticker. (strftime_Ym (add_days (t_Date row) 10), ticker)) sel @ rest"
    using Cons.prems by (auto split: sum.splits)
  have "snd ` set rest \<subseteq> (\<Union>row \<in> set rows. fst ` set (cols row))" using Cons.IH [OF b] .
  moreover have "set sel \<subseteq> fst ` set (cols row)" using select_month_subset [OF assms s] .
  ultimately show ?case unfolding p by (auto simp: image_Un image_image)
qed

text \<open>
  C10. Whatever symbols are requested and whatever the price source returns, the mapping
  that the backtest's \<open>get_stocks\<close> returns has no key \<open>googl\<close>; hence no row of the table that
  \<open>prepare_stocks\<close> builds has a column \<open>googl\<close>, and the portfolio selected from that table
  holds no position in \<open>googl\<close>. The simulation loads its prices through \<open>get_stocks\<close> again.
\<close>

theorem googl_never_appears:
  assumes ok: "sort_values_ok srt"
  shows "''googl'' \<notin> fst ` set (get_stocks yf_download symbols)
       \<and> (\<forall>tbl. prepare_stocks roc round_2 sp yf_download index = Inr tbl \<longrightarrow>
             (\<forall>row \<in> set tbl. ''googl'' \<notin> fst ` set (cols row))
           \<and> (\<forall>portfolio. backtest_portfolio srt tbl = Inr portfolio \<longrightarrow>
                 ''googl'' \<notin> snd ` set portfolio))"
proof (intro conjI allI impI)
  show "''googl'' \<notin> fst ` set (get_stocks yf_download symbols)" by (rule get_stocks_no_googl)
next
  fix tbl assume p: "prepare_stocks roc round_2 sp yf_download index = Inr tbl"
  show c: "\<forall>row \<in> set tbl. ''googl'' \<notin> fst ` set (cols row)"
  proof
    fix row assume "row \<in> set tbl"
    then obtain syms where "map fst (cols row) = map fst (get_stocks yf_download syms)"
      using prepare_stocks_keys [OF p] by blast
    then have "fst ` set (cols row) = fst ` set (get_stocks yf_download syms)"
      by (metis set_map)
    then show "''googl'' \<notin> fst ` set (cols row)" using get_stocks_no_googl by simp
  qed
  fix portfolio assume b: "backtest_portfolio srt tbl = Inr portfolio"
  let ?t = "filter (\<lambda>row. (2016, 12, 1) \<le> t_Date row) tbl"
  have "snd ` set portfolio \<subseteq> (\<Union>row \<in> set ?t. fst ` set (cols row))"
    using b build_portfolio_subset [OF ok, of "month_max ?t" ?t portfolio]
    by (simp add: backtest_portfolio_def Let_def)
  then show "''googl'' \<notin> snd ` set portfolio" using c by auto
qed


lemmas eval_daily = clean_def List.map_filter_def py_eq_def ex_bar_def add_indicators_def
  add_indicators_screener_def round2_def rint_def np_sign_def
  max_beta_def top_five_avg_def defined_def strftime_ym_def Let_def

lemmas eval_monthly = resample_stocks_to_month_def agg_month_def agg_last_def agg_sum_def
  momentum_def momentum_screener_def momentum_with_def changes_column_def roc_column_def
  roc_spec_def rolling_sum_def shift_m1_def reindex_def np_where_def py_gt0_def upt_rec

lemma ex_lower: "lower ''GOOGL'' = ''googl''" "lower ''AAA'' = ''aaa''"
  by code_simp+

lemma ex_get_stocks:
  "get_stocks ex_yf symbols
     = [(''aaa'', [\<lparr>Date = (2021, 1, 4), Open = 10, High = 13, Low = 9, Close = 11, Volume = 1000\<rparr>,
                  \<lparr>Date = (2021, 1, 5), Open = 11, High = 14, Low = 10, Close = 12, Volume = 1000\<rparr>])]"
  by (simp add: get_stocks_def ex_yf_def ex_lower eval_daily)

lemma ex_frame:
  "momentum roc_spec (resample_stocks_to_month (max_beta (add_indicators round2
      [\<lparr>Date = (2021, 1, 4), Open = 10, High = 13, Low = 9, Close = 11, Volume = 1000\<rparr>,
       \<lparr>Date = (2021, 1, 5), Open = 11, High = 14, Low = 10, Close = 12, Volume = 1000\<rparr>])))
   = [\<lparr>m_month = (21, 1), m_Date = (2021, 1, 5), m_Open = 10, m_Close = 12,
       m_beta = Some (1 / 11), m_changes = 1, m_roc = None, changes_3 = None, changes_6 = None,
       changes_9 = None, changes_12 = None\<rparr>]"
  by (simp add: eval_daily eval_monthly del: not_None_eq)


lemma ex_restrict:
  "restrict_universe ex_sp_googl (map i_Date ex_index)
      [(''aaa'', [\<lparr>m_month = (21, 1), m_Date = (2021, 1, 5), m_Open = 10, m_Close = 12,
       m_beta = Some (1 / 11), m_changes = 1, m_roc = None, changes_3 = None, changes_6 = None,
       changes_9 = None, changes_12 = None\<rparr>])]
   = Inr [(''aaa'', [\<lparr>m_month = (21, 1), m_Date = (2021, 1, 5), m_Open = 10, m_Close = 12,
       m_beta = Some (1 / 11), m_changes = 1, m_roc = None, changes_3 = None, changes_6 = None,
       changes_9 = None, changes_12 = None\<rparr>])]"
  by (simp add: ex_sp_googl_def ex_index_def get_symbols_def ex_lower less_eq_prod_def)


lemma ex_cross_section:
  "cross_section QUANTILE_HIGH_BETA ex_index
      [(''aaa'', [\<lparr>m_month = (21, 1), m_Date = (2021, 1, 5), m_Open = 10, m_Close = 12,
       m_beta = Some (1 / 11), m_changes = 1, m_roc = None, changes_3 = None, changes_6 = None,
       changes_9 = None, changes_12 = None\<rparr>])]
     = Inr [\<lparr>t_month = (21, 1), t_Date = (2021, 1, 29), t_Close = Some 3700, t_sma = Some 3400,
             cols = [(''aaa'', None)]\<rparr>,
            \<lparr>t_month = (21, 2), t_Date = (2021, 2, 26), t_Close = Some 3800, t_sma = Some 3500,
             cols = [(''aaa'', None)]\<rparr>]"
  by (simp add: ex_index_def cross_section_def neg_pass_def merge_table_def cells_def
      lookup_month_def low_momentum_def high_beta_def quantile_def defined_def
      List.map_filter_def interpolate_def
      QUANTILE_LOW_MOMENTUM_def QUANTILE_HIGH_BETA_def py_lt_def py_gt_def
      AList.updates_def apply_neg_def neg_get_def
      del: not_None_eq)


lemma ex_prepare_stocks:
  "prepare_stocks roc_spec round2 ex_sp_googl ex_yf ex_index
     = Inr [\<lparr>t_month = (21, 1), t_Date = (2021, 1, 29), t_Close = Some 3700, t_sma = Some 3400,
             cols = [(''aaa'', None)]\<rparr>,
            \<lparr>t_month = (21, 2), t_Date = (2021, 2, 26), t_Close = Some 3800, t_sma = Some 3500,
             cols = [(''aaa'', None)]\<rparr>]"
proof -
  obtain symbols where a: "all_symbols ex_sp_googl = Inr symbols"
    by (simp add: all_symbols_def ex_sp_googl_def)
  show ?thesis
    using ex_frame ex_restrict ex_cross_section
    by (simp add: prepare_stocks_def a ex_get_stocks)
qed

theorem googl_never_appears_witness:
  "sort_values_ok (sort_key snd)
   \<and> map fst (get_stocks_loop (ex_yf [''AAA'', ''GOOGL'']) []) = [''googl'', ''aaa'']
   \<and> map fst (get_stocks ex_yf [''AAA'', ''GOOGL'']) = [''aaa'']
   \<and> prepare_stocks roc_spec round2 ex_sp_googl ex_yf ex_index
       = Inr [\<lparr>t_month = (21, 1), t_Date = (2021, 1, 29), t_Close = Some 3700, t_sma = Some 3400,
               cols = [(''aaa'', None)]\<rparr>,
              \<lparr>t_month = (21, 2), t_Date = (2021, 2, 26), t_Close = Some 3800, t_sma = Some 3500,
               cols = [(''aaa'', None)]\<rparr>]
   \<and> ''googl'' \<notin> fst ` set (get_stocks ex_yf [''AAA'', ''GOOGL''])
   \<and> (\<exists>tbl. prepare_stocks roc_spec round2 ex_sp_googl ex_yf ex_index = Inr tbl
         \<and> (\<forall>row \<in> set tbl. ''googl'' \<notin> fst ` set (cols row))
         \<and> (\<exists>portfolio. backtest_portfolio (sort_key snd) tbl = Inr portfolio
               \<and> ''googl'' \<notin> snd ` set portfolio))"
proof -
  let ?T = "[\<lparr>t_month = (21, 1), t_Date = (2021, 1, 29), t_Close = Some 3700, t_sma = Some 3400,
               cols = [(''aaa'', None)]\<rparr>,
              \<lparr>t_month = (21, 2), t_Date = (2021, 2, 26), t_Close = Some 3800, t_sma = Some 3500,
               cols = [(''aaa'', None)]\<rparr>] :: table_row list"
  have h: "sort_values_ok (sort_key snd)" by (rule sort_key_snd_ok)
  have e1: "map fst (get_stocks_loop (ex_yf [''AAA'', ''GOOGL'']) []) = [''googl'', ''aaa'']"
    by (simp add: ex_yf_def ex_lower eval_daily del: not_None_eq)
  have e2: "map fst (get_stocks ex_yf [''AAA'', ''GOOGL'']) = [''aaa'']"
    by (simp add: ex_get_stocks)
  have e3: "backtest_portfolio (sort_key snd) ?T = Inr []"
    by (simp add: backtest_portfolio_def month_max_def select_month_def py_gt_def py_lt_def
        get_top_stocks_def dropna_row_def List.map_filter_def tail_def MAX_STOCKS_def
        less_eq_prod_def)
  note c = googl_never_appears [OF h, of ex_yf "[''AAA'', ''GOOGL'']" roc_spec round2 ex_sp_googl ex_index]
  note d = c [THEN conjunct2, THEN spec, THEN mp, OF ex_prepare_stocks]
  have p: "''googl'' \<notin> snd ` set ([] :: (month_label \<times> string) list)"
    by (rule d [THEN conjunct2, THEN spec, THEN mp, OF e3])
  have x: "\<exists>tbl. prepare_stocks roc_spec round2 ex_sp_googl ex_yf ex_index = Inr tbl
         \<and> (\<forall>row \<in> set tbl. ''googl'' \<notin> fst ` set (cols row))
         \<and> (\<exists>portfolio. backtest_portfolio (sort_key snd) tbl = Inr portfolio
               \<and> ''googl'' \<notin> snd ` set portfolio)"
    by (rule exI [of _ ?T] conjI ex_prepare_stocks d [THEN conjunct1]
          exI [of _ "[] :: (month_label \<times> string) list"] e3 p)+
  show ?thesis
    by (rule conjI [OF h conjI [OF e1 conjI [OF e2 conjI [OF ex_prepare_stocks
          conjI [OF c [THEN conjunct1] x]]]]])
qed


subsection \<open>The monthly resampler\<close>

lemma agg_month_eq:
  "agg_month lbl df =
     (let g = filter (\<lambda>r. strftime_ym (Date r) = lbl) df
      in if g = [] then []
         else [\<lparr>m_month = lbl, m_Date = Date (last g), m_Open = Open (hd g),
                m_Close = Close (last g), m_beta = agg_last (map beta g),
                m_changes = agg_sum (map changes g)\<rparr>])"
  by (simp add: agg_month_def Let_def split: list.splits)

lemma agg_months_labels:
  "map m_month (concat (map (\<lambda>lbl. agg_month lbl df) ls))
     = filter (\<lambda>lbl. lbl \<in> (\<lambda>x. strftime_ym (Date x)) ` set df) ls"
proof (induction ls)
  case Nil
  then show ?case by simp
next
  case (Cons l ls)
  have "filter (\<lambda>r. strftime_ym (Date r) = l) df = [] \<longleftrightarrow> l \<notin> (\<lambda>x. strftime_ym (Date x)) ` set df"
    by (auto simp: filter_empty_conv)
  then show ?case using Cons by (simp add: agg_month_eq Let_def)
qed

lemma resample_labels:
  "distinct (map m_month (resample_stocks_to_month df))
   \<and> m_month ` set (resample_stocks_to_month df) = (\<lambda>x. strftime_ym (Date x)) ` set df"
proof -
  define ls where "ls = sort (remdups (map (\<lambda>r. strftime_ym (Date r)) df))"
  define rows where "rows = concat (map (\<lambda>lbl. agg_month lbl df) ls)"
  have set_ls: "set ls = (\<lambda>x. strftime_ym (Date x)) ` set df" by (simp add: ls_def)
  have d_ls: "distinct ls" by (simp add: ls_def)
  have "filter (\<lambda>lbl. lbl \<in> (\<lambda>x. strftime_ym (Date x)) ` set df) ls = ls"
    by (rule filter_True) (simp add: set_ls)
  then have l: "map m_month rows = ls" unfolding rows_def agg_months_labels .
  have "mset (map m_month (sort_key m_Date rows)) = mset (map m_month rows)" by simp
  then have "distinct (map m_month (sort_key m_Date rows)) = distinct (map m_month rows)"
    by (rule mset_eq_imp_distinct_iff)
  then have d: "distinct (map m_month (sort_key m_Date rows))" using d_ls l by simp
  have "m_month ` set (sort_key m_Date rows) = set (map m_month rows)" by simp
  then have s: "m_month ` set (sort_key m_Date rows) = (\<lambda>x. strftime_ym (Date x)) ` set df"
    using l set_ls by simp
  have "resample_stocks_to_month df = sort_key m_Date rows"
    by (simp add: resample_stocks_to_month_def rows_def ls_def)
  then show ?thesis using d s by simp
qed

lemma sorted_key_hd:
  "sorted (map k xs) \<Longrightarrow> x \<in> set xs \<Longrightarrow> k (hd xs) \<le> k x"
  by (cases xs) auto

lemma sorted_key_last:
  "sorted (map k xs) \<Longrightarrow> x \<in> set xs \<Longrightarrow> k x \<le> k (last xs)"
  by (induction xs) (auto split: if_splits)

lemma sorted_key_filter: "sorted (map k xs) \<Longrightarrow> sorted (map k (filter P xs))"
  by (induction xs) auto

text \<open>
  C8 (as the code has it). The resampler emits exactly one row per month label of the input.
  When the input rows are in chronological order, the row of a month has the open of the
  chronologically first day of that month and the close and the date of the chronologically
  last one.
\<close>

theorem resample_first_last:
  assumes srt: "sorted (map Date df)"
  shows "distinct (map m_month (resample_stocks_to_month df))
       \<and> m_month ` set (resample_stocks_to_month df) = (\<lambda>x. strftime_ym (Date x)) ` set df
       \<and> (\<forall>r \<in> set (resample_stocks_to_month df).
             \<exists>f l. f \<in> set df \<and> l \<in> set df
                 \<and> strftime_ym (Date f) = m_month r \<and> strftime_ym (Date l) = m_month r
                 \<and> m_Open r = Open f \<and> m_Close r = Close l \<and> m_Date r = Date l
                 \<and> (\<forall>x \<in> set df. strftime_ym (Date x) = m_month r \<longrightarrow>
                        Date f \<le> Date x \<and> Date x \<le> Date l))"
proof (intro conjI ballI)
  show "distinct (map m_month (resample_stocks_to_month df))"
    and "m_month ` set (resample_stocks_to_month df) = (\<lambda>x. strftime_ym (Date x)) ` set df"
    using resample_labels [of df] by simp_all
next
  fix r assume "r \<in> set (resample_stocks_to_month df)"
  then have "r \<in> (\<Union>lbl \<in> set (sort (remdups (map (\<lambda>r. strftime_ym (Date r)) df))).
                 set (agg_month lbl df))"
    by (simp add: resample_stocks_to_month_def)
  then obtain lbl where r: "r \<in> set (agg_month lbl df)" by (rule UN_E)
  let ?g = "filter (\<lambda>x. strftime_ym (Date x) = lbl) df"
  have ne: "?g \<noteq> []"
  proof
    assume "?g = []"
    then have "agg_month lbl df = []" by (simp add: agg_month_eq)
    then show False using r by simp
  qed
  have "r = \<lparr>m_month = lbl, m_Date = Date (last ?g), m_Open = Open (hd ?g),
                m_Close = Close (last ?g), m_beta = agg_last (map beta ?g),
                m_changes = agg_sum (map changes ?g)\<rparr>"
    using r ne by (simp add: agg_month_eq Let_def)
  then have req: "m_month r = lbl" "m_Open r = Open (hd ?g)" "m_Close r = Close (last ?g)"
      "m_Date r = Date (last ?g)"
    by simp_all
  have sg: "sorted (map Date ?g)" using srt by (rule sorted_key_filter)
  have hd_in: "hd ?g \<in> set ?g" using ne by (rule hd_in_set)
  have last_in: "last ?g \<in> set ?g" using ne by (rule last_in_set)
  have b: "\<forall>x \<in> set df. strftime_ym (Date x) = m_month r \<longrightarrow>
              Date (hd ?g) \<le> Date x \<and> Date x \<le> Date (last ?g)"
  proof (intro ballI impI)
    fix x assume "x \<in> set df" "strftime_ym (Date x) = m_month r"
    then have xg: "x \<in> set ?g" using req(1) by simp
    show "Date (hd ?g) \<le> Date x \<and> Date x \<le> Date (last ?g)"
      using sorted_key_hd [OF sg xg] sorted_key_last [OF sg xg] by (rule conjI)
  qed
  have i1: "hd ?g \<in> set df" and i2: "last ?g \<in> set df"
    and i3: "strftime_ym (Date (hd ?g)) = m_month r"
    and i4: "strftime_ym (Date (last ?g)) = m_month r"
    using hd_in last_in req(1) by simp_all
  show "\<exists>f l. f \<in> set df \<and> l \<in> set df
                 \<and> strftime_ym (Date f) = m_month r \<and> strftime_ym (Date l) = m_month r
                 \<and> m_Open r = Open f \<and> m_Close r = Close l \<and> m_Date r = Date l
                 \<and> (\<forall>x \<in> set df. strftime_ym (Date x) = m_month r \<longrightarrow>
                        Date f \<le> Date x \<and> Date x \<le> Date l)"
    using i1 i2 i3 i4 req(2,3,4) b
    by (intro exI [of _ "hd ?g"] exI [of _ "last ?g"] conjI)
qed



lemmas eval_resample = resample_stocks_to_month_def agg_month_def agg_last_def agg_sum_def
  defined_def List.map_filter_def ex_days_def ex_day_def strftime_ym_def

theorem resample_first_last_witness:
  "sorted (map Date (rev ex_days))
   \<and> resample_stocks_to_month (rev ex_days)
       = [\<lparr>m_month = (21, 1), m_Date = (2021, 1, 15), m_Open = 10, m_Close = 21,
           m_beta = Some (1 / 100), m_changes = 2\<rparr>]
   \<and> distinct (map m_month (resample_stocks_to_month (rev ex_days)))
   \<and> m_month ` set (resample_stocks_to_month (rev ex_days))
       = (\<lambda>x. strftime_ym (Date x)) ` set (rev ex_days)
   \<and> (\<exists>f l. f \<in> set (rev ex_days) \<and> l \<in> set (rev ex_days)
          \<and> strftime_ym (Date f) = (21, 1) \<and> strftime_ym (Date l) = (21, 1)
          \<and> Open f = 10 \<and> Close l = 21 \<and> Date l = (2021, 1, 15)
          \<and> (\<forall>x \<in> set (rev ex_days). strftime_ym (Date x) = (21, 1) \<longrightarrow>
                 Date f \<le> Date x \<and> Date x \<le> Date l))"
proof -
  let ?R = "\<lparr>m_month = (21, 1), m_Date = (2021, 1, 15), m_Open = 10, m_Close = 21,
           m_beta = Some (1 / 100), m_changes = 2\<rparr> :: monthly_row"
  have h: "sorted (map Date (rev ex_days))"
    by (simp add: ex_days_def ex_day_def less_eq_prod_def)
  have e: "resample_stocks_to_month (rev ex_days) = [?R]"
    by (simp add: eval_resample del: not_None_eq)
  note c = resample_first_last [OF h]
  have m: "?R \<in> set (resample_stocks_to_month (rev ex_days))"
    by (simp only: e list.set insertI1)
  have x: "\<exists>f l. f \<in> set (rev ex_days) \<and> l \<in> set (rev ex_days)
          \<and> strftime_ym (Date f) = m_month ?R \<and> strftime_ym (Date l) = m_month ?R
          \<and> m_Open ?R = Open f \<and> m_Close ?R = Close l \<and> m_Date ?R = Date l
          \<and> (\<forall>x \<in> set (rev ex_days). strftime_ym (Date x) = m_month ?R \<longrightarrow>
                 Date f \<le> Date x \<and> Date x \<le> Date l)"
    by (rule bspec [OF c [THEN conjunct2, THEN conjunct2] m])
  have y: "\<exists>f l. f \<in> set (rev ex_days) \<and> l \<in> set (rev ex_days)
          \<and> strftime_ym (Date f) = (21, 1) \<and> strftime_ym (Date l) = (21, 1)
          \<and> Open f = 10 \<and> Close l = 21 \<and> Date l = (2021, 1, 15)
          \<and> (\<forall>x \<in> set (rev ex_days). strftime_ym (Date x) = (21, 1) \<longrightarrow>
                 Date f \<le> Date x \<and> Date x \<le> Date l)"
    using x by (simp only: monthly_row.simps eq_commute [of "10 :: real"] eq_commute [of "21 :: real"]
        eq_commute [of "(2021, 1, 15) :: date"])
  show ?thesis
    by (rule conjI [OF h conjI [OF e conjI [OF c [THEN conjunct1]
          conjI [OF c [THEN conjunct2, THEN conjunct1] y]]]])
qed

text \<open>
  The claim as written (any row order) fails: with the two days of \<open>ex_days\<close> in reverse
  chronological order the month's open is that of the later day and its close and date are
  those of the earlier day; in chronological order the same rows give another result.
\<close>

theorem resample_row_order_counterexample:
  "resample_stocks_to_month ex_days
       = [\<lparr>m_month = (21, 1), m_Date = (2021, 1, 4), m_Open = 20, m_Close = 11,
           m_beta = Some (1 / 100), m_changes = 2\<rparr>]
   \<and> resample_stocks_to_month (rev ex_days)
       = [\<lparr>m_month = (21, 1), m_Date = (2021, 1, 15), m_Open = 10, m_Close = 21,
           m_beta = Some (1 / 100), m_changes = 2\<rparr>]
   \<and> ex_days = [ex_day (2021, 1, 15) 20 21, ex_day (2021, 1, 4) 10 11]"
  by (simp add: eval_resample del: not_None_eq)

end
